theory Spec2Isabelle
  imports Main "HOL-Library.Word" "HOL-Library.Signed_Division"
begin

unbundle bit_operations_syntax

section \<open>apphandler.cpp: firmware version parser, Device ID record, GUID handlers\<close>

text \<open>
  The development follows \<^verbatim>\<open>src/apphandler.cpp\<close>. C++ exceptions are values
  (\<open>exn\<close>), out-parameters and function-local statics are explicit state, loops are
  recursive functions, and a store through an index outside the 16-byte GUID buffer is
  an outcome of its own. Bytes (\<^verbatim>\<open>uint8_t\<close>, \<^verbatim>\<open>char\<close>) are \<open>8 word\<close>,
  \<^verbatim>\<open>uint32_t\<close> and \<^verbatim>\<open>size_t\<close> are \<open>32 word\<close> (the 32-bit ARM of the BMC),
  \<^verbatim>\<open>int\<close> results of the numeric conversions are \<open>int\<close> with the range check of
  \<^verbatim>\<open>std::stoi\<close> written out. Whether plain \<^verbatim>\<open>char\<close> is signed is left to the
  compiler by the language; the Device ID handler takes it as the flag \<open>char_signed\<close>
  (False on ARM, the BMC target; True on x86).
\<close>

subsection \<open>Strings\<close>

type_synonym byte = "8 word"

datatype exn = invalid_argument | out_of_range | InternalFailure

text \<open>\<^verbatim>\<open>std::string s(p)\<close> for a \<^verbatim>\<open>const char *\<close>: the characters before the first NUL.\<close>

definition c_str :: "string \<Rightarrow> string" where
  "c_str p = takeWhile (\<lambda>c. c \<noteq> CHR 0x00) p"

text \<open>\<^verbatim>\<open>s.find(pat) != npos\<close>.\<close>

fun find_str :: "string \<Rightarrow> string \<Rightarrow> bool" where
  "find_str [] pat = (pat = [])"
| "find_str (c # cs) pat = (take (length pat) (c # cs) = pat \<or> find_str cs pat)"

text \<open>
  \<^verbatim>\<open>tokenize(str, token)\<close>: while the position \<open>j\<close> is inside the string, the token
  runs from \<open>j\<close> to the next delimiter (or the end), and \<open>j\<close> moves behind that
  delimiter. The argument here is the suffix of the string from \<open>j\<close>.
\<close>

function tokenize :: "string \<Rightarrow> string \<Rightarrow> string list" where
  "tokenize str token =
     (if str = [] then []
      else takeWhile (\<lambda>c. c \<notin> set token) str
             # tokenize (drop 1 (dropWhile (\<lambda>c. c \<notin> set token) str)) token)"
  by pat_completeness auto
termination
proof (relation "measure (\<lambda>(str, token). length str)")
  show "wf (measure (\<lambda>(str, token). length str))" by simp
next
  fix str token :: string
  assume ne: "str \<noteq> []"
  have "length (dropWhile (\<lambda>c. c \<notin> set token) str) \<le> length str"
    by (rule length_dropWhile_le)
  with ne have "length (drop 1 (dropWhile (\<lambda>c. c \<notin> set token) str)) < length str"
    by (cases str) auto
  then show "((drop 1 (dropWhile (\<lambda>c. c \<notin> set token) str), token), (str, token))
      \<in> measure (\<lambda>(str, token). length str)"
    by simp
qed

declare tokenize.simps [simp del]

subsection \<open>Numeric conversion: \<^verbatim>\<open>strtol\<close>, \<^verbatim>\<open>std::stoi\<close>, \<^verbatim>\<open>strtoul\<close>\<close>

definition isspace :: "char \<Rightarrow> bool" where
  "isspace c = (c \<in> {CHR '' '', CHR 0x09, CHR 0x0A, CHR 0x0B, CHR 0x0C, CHR 0x0D})"

text \<open>The value of a character as a digit: 0-9, then a-z and A-Z as 10-35.\<close>

definition digit_val :: "char \<Rightarrow> nat option" where
  "digit_val c =
     (let n = of_char c :: nat in
      if 48 \<le> n \<and> n \<le> 57 then Some (n - 48)
      else if 97 \<le> n \<and> n \<le> 122 then Some (n - 87)
      else if 65 \<le> n \<and> n \<le> 90 then Some (n - 55)
      else None)"

definition is_digit :: "nat \<Rightarrow> char \<Rightarrow> bool" where
  "is_digit base c = (case digit_val c of None \<Rightarrow> False | Some d \<Rightarrow> d < base)"

fun digits_val :: "nat \<Rightarrow> nat \<Rightarrow> string \<Rightarrow> nat" where
  "digits_val base acc [] = acc"
| "digits_val base acc (c # cs) = digits_val base (acc * base + the (digit_val c)) cs"

text \<open>
  The scanner shared by \<^verbatim>\<open>strtol\<close> and \<^verbatim>\<open>strtoul\<close>: leading white space, an
  optional sign, for base 16 an optional \<^verbatim>\<open>0x\<close> that is followed by a hex digit, then
  the longest run of digits. \<open>None\<close> when there is no digit (no conversion), otherwise
  the sign and the magnitude.
\<close>

definition scan_number :: "string \<Rightarrow> nat \<Rightarrow> (bool \<times> nat) option" where
  "scan_number str base =
     (let s1 = dropWhile isspace str;
          neg = (case s1 of c # _ \<Rightarrow> c = CHR ''-'' | [] \<Rightarrow> False);
          s2 = (case s1 of c # cs \<Rightarrow> if c = CHR ''-'' \<or> c = CHR ''+'' then cs else s1 | [] \<Rightarrow> s1);
          s3 = (case s2 of
                  c0 # x # h # cs \<Rightarrow>
                    if base = 16 \<and> c0 = CHR ''0'' \<and> (x = CHR ''x'' \<or> x = CHR ''X'') \<and> is_digit 16 h
                    then h # cs else s2
                | _ \<Rightarrow> s2);
          ds = takeWhile (is_digit base) s3
      in if ds = [] then None else Some (neg, digits_val base 0 ds))"

text \<open>
  \<^verbatim>\<open>std::stoi(str, 0, base)\<close>: \<^verbatim>\<open>std::invalid_argument\<close> when nothing was converted,
  \<^verbatim>\<open>std::out_of_range\<close> when the value does not fit an \<^verbatim>\<open>int\<close>.
\<close>

definition stoi :: "string \<Rightarrow> nat \<Rightarrow> exn + int" where
  "stoi str base =
     (case scan_number str base of
        None \<Rightarrow> Inl invalid_argument
      | Some (neg, v) \<Rightarrow>
          (let r = (if neg then - int v else int v)
           in if r < - 2147483648 \<or> 2147483647 < r then Inl out_of_range else Inr r))"

subsection \<open>The version parser \<^verbatim>\<open>convert_version\<close>\<close>

record rev_t =
  major :: byte
  minor :: byte
  aux :: "byte list"

definition rev_zero :: rev_t where
  "rev_zero = \<lparr>major = 0, minor = 0, aux = [0, 0, 0, 0]\<rparr>"

text \<open>
  \<^verbatim>\<open>rev->aux32 = htobe32(x)\<close>: the four bytes of the union hold \<open>x\<close> most significant
  byte first, on a host of either byte order.
\<close>

definition htobe32_bytes :: "32 word \<Rightarrow> byte list" where
  "htobe32_bytes x =
     [ucast (drop_bit 24 x), ucast (drop_bit 16 x), ucast (drop_bit 8 x), ucast x]"

definition AUX_MAX_RELEASE :: int where "AUX_MAX_RELEASE = 0x999999"
definition AUX_MAX_PATCH :: int where "AUX_MAX_PATCH = 127"

text \<open>
  A step of the parser either goes on (\<open>Inr\<close>) or throws (\<open>Inl\<close>) the exception of a
  numeric conversion; the thrown case keeps the contents of \<^verbatim>\<open>*rev\<close> at that moment,
  which the caller's object then holds.
\<close>

definition parse_major :: "string list \<Rightarrow> rev_t \<Rightarrow> (exn \<times> rev_t) + rev_t" where
  "parse_major tokens rv =
     (if tokens \<noteq> [] then
        (case stoi (tokens ! 0) 16 of
           Inl e \<Rightarrow> Inl (e, rv)
         | Inr v \<Rightarrow> Inr (rv\<lparr>major := word_of_int v\<rparr>))
      else Inr rv)"

definition parse_release :: "string list \<Rightarrow> rev_t \<Rightarrow> (exn \<times> rev_t) + (rev_t \<times> bool)" where
  "parse_release minortok rv =
     (if length minortok > 1 then
        (case stoi (minortok ! 1) 16 of
           Inl e \<Rightarrow> Inl (e, rv)
         | Inr rel \<Rightarrow>
             (let release = (word_of_int (if rel > AUX_MAX_RELEASE then AUX_MAX_RELEASE else rel) :: 32 word)
              in Inr (rv\<lparr>aux := htobe32_bytes (push_bit 8 release)\<rparr>, True)))
      else Inr (rv, False))"

definition parse_patch :: "string list \<Rightarrow> rev_t \<Rightarrow> (exn \<times> rev_t) + rev_t" where
  "parse_patch minortok rv =
     (if length minortok > 2 then
        (case stoi (minortok ! 2) 10 of
           Inl e \<Rightarrow> Inl (e, rv)
         | Inr pl \<Rightarrow>
             (let patchlevel = (word_of_int (if pl > AUX_MAX_PATCH then AUX_MAX_PATCH else pl) :: byte)
              in Inr (rv\<lparr>aux := (aux rv)[3 := push_bit 1 patchlevel]\<rparr>)))
      else Inr rv)"

definition parse_minor :: "string list \<Rightarrow> rev_t \<Rightarrow> (exn \<times> rev_t) + (rev_t \<times> bool)" where
  "parse_minor tokens rv =
     (if length tokens > 1 then
        (case stoi (tokens ! 1) 16 of
           Inl e \<Rightarrow> Inl (e, rv)
         | Inr v \<Rightarrow>
             (let rev1 = rv\<lparr>minor := word_of_int v\<rparr>;
                  minortok = tokenize (tokens ! 1) ''rp''
              in case parse_release minortok rev1 of
                   Inl t \<Rightarrow> Inl t
                 | Inr (rev2, has_release) \<Rightarrow>
                     (case parse_patch minortok rev2 of
                        Inl t \<Rightarrow> Inl t
                      | Inr rev3 \<Rightarrow> Inr (rev3, has_release))))
      else Inr (rv, False))"

text \<open>
  The search for the git hash: the first token from index 3 on whose first character is
  \<^verbatim>\<open>g\<close> (the first character of an empty token is the terminating NUL), cut to the 6
  characters behind the \<^verbatim>\<open>g\<close>; the empty string when there is none.
\<close>

fun find_hashstr :: "string list \<Rightarrow> string" where
  "find_hashstr [] = []"
| "find_hashstr (t # ts) =
     (if (case t of [] \<Rightarrow> False | c # _ \<Rightarrow> c = CHR ''g'') then take 6 (drop 1 t)
      else find_hashstr ts)"

definition parse_hash :: "string list \<Rightarrow> bool \<Rightarrow> rev_t \<Rightarrow> (exn \<times> rev_t) + rev_t" where
  "parse_hash tokens has_release rv =
     (if \<not> has_release \<and> length tokens > 3 then
        (case stoi (find_hashstr (drop 3 tokens)) 16 of
           Inl e \<Rightarrow> Inl (e, rv)
         | Inr v \<Rightarrow> Inr (rv\<lparr>aux := htobe32_bytes (push_bit 8 (word_of_int v :: 32 word))\<rparr>))
      else Inr rv)"

text \<open>Cut off everything up to the first \<^verbatim>\<open>v\<close>, when there is one.\<close>

definition cut_v :: "string \<Rightarrow> string" where
  "cut_v s = (case dropWhile (\<lambda>c. c \<noteq> CHR ''v'') s of [] \<Rightarrow> s | _ # t \<Rightarrow> t)"

text \<open>
  \<^verbatim>\<open>convert_version(p, rev)\<close>. \<open>Inr (r, rv)\<close>: it returned \<open>r\<close> and \<^verbatim>\<open>*rev\<close> holds
  \<open>rv\<close>; \<open>Inl (e, rv)\<close>: it threw \<open>e\<close> and \<^verbatim>\<open>*rev\<close> holds \<open>rv\<close>.
\<close>

definition convert_version :: "string \<Rightarrow> (exn \<times> rev_t) + (int \<times> rev_t)" where
  "convert_version p =
     (let s = cut_v (c_str p); rev0 = rev_zero in
      if s \<noteq> [] then
        (let dirty = find_str s ''dirty'';
             tokens = tokenize s ''.-''
         in case parse_major tokens rev0 of
              Inl t \<Rightarrow> Inl t
            | Inr rev1 \<Rightarrow>
                (case parse_minor tokens rev1 of
                   Inl t \<Rightarrow> Inl t
                 | Inr (rev2, has_release) \<Rightarrow>
                     (case parse_hash tokens has_release rev2 of
                        Inl t \<Rightarrow> Inl t
                      | Inr rev3 \<Rightarrow>
                          Inr (0, rev3\<lparr>aux := (aux rev3)[3 := aux rev3 ! 3 OR (if dirty then 1 else 0)]\<rparr>))))
      else Inr (- 1, rev0))"

subsection \<open>The Device ID handler \<^verbatim>\<open>ipmi_app_get_device_id\<close>\<close>

text \<open>
  \<^verbatim>\<open>ipmi_device_id_t\<close> is a packed struct of 15 bytes; its arrays are written out
  element by element (\<open>fw_0\<close> is \<^verbatim>\<open>fw[0]\<close>, and so on).
\<close>

record ipmi_device_id_t =
  id_f :: byte
  revision :: byte
  fw_0 :: byte
  fw_1 :: byte
  ipmi_ver :: byte
  addn_dev_support :: byte
  manuf_id_0 :: byte
  manuf_id_1 :: byte
  manuf_id_2 :: byte
  prod_id_0 :: byte
  prod_id_1 :: byte
  aux_0 :: byte
  aux_1 :: byte
  aux_2 :: byte
  aux_3 :: byte

text \<open>\<^verbatim>\<open>memcpy(response, &dev_id, sizeof(dev_id))\<close>: the bytes in the order of the fields.\<close>

definition dev_id_bytes :: "ipmi_device_id_t \<Rightarrow> byte list" where
  "dev_id_bytes d =
     [id_f d, revision d, fw_0 d, fw_1 d, ipmi_ver d, addn_dev_support d,
      manuf_id_0 d, manuf_id_1 d, manuf_id_2 d, prod_id_0 d, prod_id_1 d,
      aux_0 d, aux_1 d, aux_2 d, aux_3 d]"

text \<open>\<^verbatim>\<open>static ipmi_device_id_t dev_id{}\<close>: zero-initialised.\<close>

definition dev_id_zero :: ipmi_device_id_t where
  "dev_id_zero =
     \<lparr>id_f = 0, revision = 0, fw_0 = 0, fw_1 = 0, ipmi_ver = 0, addn_dev_support = 0,
      manuf_id_0 = 0, manuf_id_1 = 0, manuf_id_2 = 0, prod_id_0 = 0, prod_id_1 = 0,
      aux_0 = 0, aux_1 = 0, aux_2 = 0, aux_3 = 0\<rparr>"

text \<open>The two function-local statics of the handler.\<close>

record dev_state =
  dev_id :: ipmi_device_id_t
  dev_id_initialized :: bool

definition dev_state_init :: dev_state where
  "dev_state_init = \<lparr>dev_id = dev_id_zero, dev_id_initialized = False\<rparr>"

text \<open>
  What \<^verbatim>\<open>data.value(key, 0)\<close> returns for the six keys of
  \<^verbatim>\<open>/usr/share/ipmi-providers/dev_id.json\<close> (an \<^verbatim>\<open>int\<close>, 0 for an absent key), and the
  three ways the read of the file can end.
\<close>

record dev_id_json =
  j_id :: "32 word"
  j_revision :: "32 word"
  j_addn_dev_support :: "32 word"
  j_manuf_id :: "32 word"
  j_prod_id :: "32 word"
  j_aux :: "32 word"

datatype dev_id_file = NotOpen | Discarded | Parsed dev_id_json

text \<open>
  What one invocation finds outside: the result of
  \<^verbatim>\<open>getActiveSoftwareVersionInfo()\<close> (\<open>None\<close> when it throws), the config file, and
  \<^verbatim>\<open>getCurrentBmcState()\<close>.
\<close>

record handler_env =
  version_info :: "string option"
  config_file :: dev_id_file
  bmc_ready :: bool

datatype ipmi_ret_t = IPMI_CC_OK | IPMI_CC_UNSPECIFIED_ERROR | IPMI_CC_RESPONSE_ERROR

definition IPMI_DEVID_FW1_MASK :: byte where
  "IPMI_DEVID_FW1_MASK = NOT (push_bit 7 1)"

text \<open>
  The \<^verbatim>\<open>try\<close> block: \<open>r\<close> and \<open>rev\<close> after it. An exception of the version source or of
  the parser leaves \<open>r = -1\<close>; the parser may have written part of \<open>rev\<close> by then.
\<close>

definition try_convert :: "string option \<Rightarrow> int \<times> rev_t" where
  "try_convert version =
     (case version of
        None \<Rightarrow> (- 1, rev_zero)
      | Some v \<Rightarrow>
          (case convert_version v of
             Inl (e, rv) \<Rightarrow> (- 1, rv)
           | Inr (r, rv) \<Rightarrow> (r, rv)))"

text \<open>The value of a plain \<^verbatim>\<open>char\<close> in an expression, after promotion to \<^verbatim>\<open>int\<close>.\<close>

definition char_val :: "bool \<Rightarrow> byte \<Rightarrow> int" where
  "char_val char_signed c = (if char_signed then sint c else uint c)"

text \<open>
  \<^verbatim>\<open>rev.minor = (rev.minor > 99 ? 99 : rev.minor);
  dev_id.fw[1] = rev.minor % 10 + (rev.minor / 10) * 16;\<close>
  with the truncating division of C.
\<close>

definition clamp_minor :: "bool \<Rightarrow> byte \<Rightarrow> int" where
  "clamp_minor char_signed m = (if char_val char_signed m > 99 then 99 else char_val char_signed m)"

definition minor_to_fw1 :: "bool \<Rightarrow> byte \<Rightarrow> byte" where
  "minor_to_fw1 char_signed m =
     (let v = clamp_minor char_signed m in word_of_int (v smod 10 + (v sdiv 10) * 16))"

definition set_revision :: "bool \<Rightarrow> rev_t \<Rightarrow> ipmi_device_id_t \<Rightarrow> ipmi_device_id_t" where
  "set_revision char_signed rv d =
     d\<lparr>fw_0 := major rv AND IPMI_DEVID_FW1_MASK,
       fw_1 := minor_to_fw1 char_signed (minor rv),
       aux_0 := aux rv ! 0, aux_1 := aux rv ! 1, aux_2 := aux rv ! 2, aux_3 := aux rv ! 3\<rparr>"

text \<open>The assignments from the parsed JSON; the \<^verbatim>\<open>aux\<close> of the file wins when non-zero.\<close>

definition set_config :: "dev_id_json \<Rightarrow> ipmi_device_id_t \<Rightarrow> ipmi_device_id_t" where
  "set_config data d =
     (let d1 = d\<lparr>id_f := ucast (j_id data),
                 revision := ucast (j_revision data),
                 addn_dev_support := ucast (j_addn_dev_support data),
                 manuf_id_2 := ucast (signed_drop_bit 16 (j_manuf_id data)),
                 manuf_id_1 := ucast (signed_drop_bit 8 (j_manuf_id data)),
                 manuf_id_0 := ucast (j_manuf_id data),
                 prod_id_1 := ucast (signed_drop_bit 8 (j_prod_id data)),
                 prod_id_0 := ucast (j_prod_id data)\<rparr>;
          a = htobe32_bytes (j_aux data)
      in if j_aux data \<noteq> 0
         then d1\<lparr>aux_0 := a ! 0, aux_1 := a ! 1, aux_2 := a ! 2, aux_3 := a ! 3\<rparr>
         else d1)"

text \<open>
  The body of \<^verbatim>\<open>if (!dev_id_initialized)\<close>: the new statics and the completion code.
\<close>

definition init_dev_id :: "bool \<Rightarrow> handler_env \<Rightarrow> dev_state \<Rightarrow> dev_state \<times> ipmi_ret_t" where
  "init_dev_id char_signed env st =
     (let (r, rv) = try_convert (version_info env);
          d1 = (if r \<ge> 0 then set_revision char_signed rv (dev_id st) else dev_id st);
          d2 = d1\<lparr>ipmi_ver := 2\<rparr>
      in case config_file env of
           Parsed data \<Rightarrow> (\<lparr>dev_id = set_config data d2, dev_id_initialized = True\<rparr>, IPMI_CC_OK)
         | Discarded \<Rightarrow> (st\<lparr>dev_id := d2\<rparr>, IPMI_CC_UNSPECIFIED_ERROR)
         | NotOpen \<Rightarrow> (st\<lparr>dev_id := d2\<rparr>, IPMI_CC_UNSPECIFIED_ERROR))"

text \<open>
  \<^verbatim>\<open>dev_id.fw[0] &= IPMI_DEVID_FW1_MASK; if (!getCurrentBmcState()) dev_id.fw[0] |= (1 << 7);\<close>
\<close>

definition set_availability :: "bool \<Rightarrow> ipmi_device_id_t \<Rightarrow> ipmi_device_id_t" where
  "set_availability ready d =
     (let d1 = d\<lparr>fw_0 := fw_0 d AND IPMI_DEVID_FW1_MASK\<rparr>
      in if \<not> ready then d1\<lparr>fw_0 := fw_0 d1 OR push_bit 7 1\<rparr> else d1)"

text \<open>
  One invocation: the completion code, the response (\<^verbatim>\<open>*data_len\<close> is 15 on every
  path) and the statics afterwards.
\<close>

definition ipmi_app_get_device_id ::
    "bool \<Rightarrow> handler_env \<Rightarrow> dev_state \<Rightarrow> ipmi_ret_t \<times> byte list \<times> dev_state" where
  "ipmi_app_get_device_id char_signed env st =
     (let (st1, rc) = (if \<not> dev_id_initialized st then init_dev_id char_signed env st
                       else (st, IPMI_CC_OK));
          st2 = st1\<lparr>dev_id := set_availability (bmc_ready env) (dev_id st1)\<rparr>
      in (rc, dev_id_bytes (dev_id st2), st2))"

text \<open>A run of invocations, one environment each: the responses and the final statics.\<close>

fun run_device_id :: "bool \<Rightarrow> handler_env list \<Rightarrow> dev_state \<Rightarrow> byte list list \<times> dev_state" where
  "run_device_id char_signed [] st = ([], st)"
| "run_device_id char_signed (env # envs) st =
     (case ipmi_app_get_device_id char_signed env st of
        (rc, resp, st1) \<Rightarrow>
          (case run_device_id char_signed envs st1 of (resps, st2) \<Rightarrow> (resp # resps, st2)))"

text \<open>
  The static portion of a record: the record with the availability bit (bit 7 of
  \<^verbatim>\<open>fw[0]\<close>) masked out, by the mask the handler itself applies.
\<close>

definition static_part :: "ipmi_device_id_t \<Rightarrow> ipmi_device_id_t" where
  "static_part d = d\<lparr>fw_0 := fw_0 d AND IPMI_DEVID_FW1_MASK\<rparr>"

subsection \<open>The GUID handlers\<close>

text \<open>
  How a GUID handler ends: with the 16-byte response (a cell is \<open>None\<close> while nothing
  was stored in it), with an error completion code and no response data, with an
  exception that leaves the handler, or with a store outside the 16-byte array at the
  given index.
\<close>

datatype guid_outcome =
    Response "byte option list"
  | Error ipmi_ret_t
  | Throws exn
  | OutOfBounds int

definition bmc_guid_len :: nat where "bmc_guid_len = 16"

text \<open>
  \<^verbatim>\<open>strtoul(tmp_array, NULL, 16)\<close> stored into an \<^verbatim>\<open>int\<close>, of which \<^verbatim>\<open>memcpy\<close> takes
  the first byte: the low-order byte on the little-endian target. No conversion gives 0.
\<close>

definition strtoul_byte :: "string \<Rightarrow> byte" where
  "strtoul_byte s =
     (case scan_number s 16 of
        None \<Rightarrow> 0
      | Some (neg, v) \<Rightarrow> word_of_int (if neg then - int v else int v))"

text \<open>
  The tokens that \<^verbatim>\<open>strtok_r(uuid, "-", &tokptr)\<close> and its repetitions return: the
  non-empty runs between hyphens.
\<close>

function strtok_r :: "string \<Rightarrow> string \<Rightarrow> string list" where
  "strtok_r str delim =
     (let s1 = dropWhile (\<lambda>c. c \<in> set delim) str in
      if s1 = [] then []
      else takeWhile (\<lambda>c. c \<notin> set delim) s1
             # strtok_r (drop 1 (dropWhile (\<lambda>c. c \<notin> set delim) s1)) delim)"
  by pat_completeness auto
termination
proof (relation "measure (\<lambda>(str, delim). length str)")
  show "wf (measure (\<lambda>(str, delim). length str))" by simp
next
  fix str delim s1 :: string
  assume s1: "s1 = dropWhile (\<lambda>c. c \<in> set delim) str" and ne: "s1 \<noteq> []"
  have a: "length s1 \<le> length str"
    unfolding s1 by (rule length_dropWhile_le)
  have "length (dropWhile (\<lambda>c. c \<notin> set delim) s1) \<le> length s1"
    by (rule length_dropWhile_le)
  with ne have "length (drop 1 (dropWhile (\<lambda>c. c \<notin> set delim) s1)) < length s1"
    by (cases s1) auto
  with a show "((drop 1 (dropWhile (\<lambda>c. c \<notin> set delim) s1), delim), (str, delim))
      \<in> measure (\<lambda>(str, delim). length str)"
    by simp
qed

declare strtok_r.simps [simp del]

text \<open>
  The inner loop of \<^verbatim>\<open>ipmi_app_get_device_guid\<close> for one octet group: \<open>n\<close> rounds
  are left, each takes two characters and stores one byte at \<open>resp_loc\<close>, which is then
  decremented. \<open>Inl\<close> is a store outside \<^verbatim>\<open>resp_uuid[16]\<close>.
\<close>

fun copy_octet :: "nat \<Rightarrow> string \<Rightarrow> int \<Rightarrow> byte option list \<Rightarrow> int + (int \<times> byte option list)" where
  "copy_octet 0 id_octet resp_loc resp_uuid = Inr (resp_loc, resp_uuid)"
| "copy_octet (Suc n) id_octet resp_loc resp_uuid =
     (if 0 \<le> resp_loc \<and> resp_loc < 16
      then copy_octet n (drop 2 id_octet) (resp_loc - 1)
             (resp_uuid[nat resp_loc := Some (strtoul_byte (take 2 id_octet))])
      else Inl resp_loc)"

text \<open>The outer loop over the octet groups; \<^verbatim>\<open>tmp_size = strlen(id_octet)/2\<close>.\<close>

fun copy_octets :: "string list \<Rightarrow> int \<Rightarrow> byte option list \<Rightarrow> int + (int \<times> byte option list)" where
  "copy_octets [] resp_loc resp_uuid = Inr (resp_loc, resp_uuid)"
| "copy_octets (id_octet # rest) resp_loc resp_uuid =
     (case copy_octet (length id_octet div 2) id_octet resp_loc resp_uuid of
        Inl i \<Rightarrow> Inl i
      | Inr (resp_loc1, resp_uuid1) \<Rightarrow> copy_octets rest resp_loc1 resp_uuid1)"

text \<open>
  \<^verbatim>\<open>ipmi_app_get_device_guid\<close> from the point where the \<^verbatim>\<open>uuid\<close> property has been
  read from the bus.
\<close>

definition ipmi_app_get_device_guid :: "string \<Rightarrow> guid_outcome" where
  "ipmi_app_get_device_guid uuid =
     (case strtok_r (c_str uuid) ''-'' of
        [] \<Rightarrow> Error IPMI_CC_RESPONSE_ERROR
      | octets \<Rightarrow>
          (case copy_octets octets 15 (replicate 16 None) of
             Inl i \<Rightarrow> OutOfBounds i
           | Inr (resp_loc, resp_uuid) \<Rightarrow> Response resp_uuid))"

text \<open>
  The copy loop of \<^verbatim>\<open>ipmi_app_get_sys_guid\<close>. \<^verbatim>\<open>respLoc\<close> is a \<^verbatim>\<open>size_t\<close>: the
  test \<^verbatim>\<open>respLoc >= 0\<close> is kept as written, and decrementing 0 wraps around.
\<close>

function sys_guid_loop :: "string \<Rightarrow> nat \<Rightarrow> 32 word \<Rightarrow> byte option list \<Rightarrow> guid_outcome" where
  "sys_guid_loop guidProp i respLoc respGuid =
     (if i < length guidProp \<and> 0 \<le> respLoc then
        (case stoi (take 2 (drop i guidProp)) 16 of
           Inl e \<Rightarrow> Throws e
         | Inr v \<Rightarrow>
             if unat respLoc < bmc_guid_len
             then sys_guid_loop guidProp (i + 2) (respLoc - 1)
                    (respGuid[unat respLoc := Some (word_of_int v)])
             else OutOfBounds (uint respLoc))
      else Response respGuid)"
  by pat_completeness auto
termination
  by (relation "measure (\<lambda>(guidProp, i, respLoc, respGuid). length guidProp - i)") auto

declare sys_guid_loop.simps [simp del]

text \<open>
  \<^verbatim>\<open>ipmi_app_get_sys_guid\<close> from the point where the UUID property has been read.
\<close>

definition ipmi_app_get_sys_guid :: "string \<Rightarrow> guid_outcome" where
  "ipmi_app_get_sys_guid prop =
     (let guidProp = filter (\<lambda>c. c \<noteq> CHR ''-'') prop;
          guidPropLen = length guidProp
      in if guidPropLen \<le> 0 \<or> guidPropLen div 2 \<noteq> bmc_guid_len
         then Error IPMI_CC_RESPONSE_ERROR
         else sys_guid_loop guidProp 0 (of_nat (bmc_guid_len - 1)) (replicate bmc_guid_len None))"

text \<open>
  For reference, not used by the handlers: the bytes that a text of hex digits denotes,
  two digits per byte, from left to right.
\<close>

fun hex_pairs :: "string \<Rightarrow> byte list" where
  "hex_pairs (a # b # cs) = word_of_nat (16 * the (digit_val a) + the (digit_val b)) # hex_pairs cs"
| "hex_pairs [a] = []"
| "hex_pairs [] = []"

section \<open>Properties\<close>

subsection \<open>Evaluation rules\<close>

lemmas stoi_eval = stoi_def scan_number_def isspace_def is_digit_def digit_val_def

lemmas parse_eval = parse_major_def parse_minor_def parse_release_def parse_patch_def
  parse_hash_def htobe32_bytes_def AUX_MAX_RELEASE_def AUX_MAX_PATCH_def rev_zero_def

lemma size_t_wrap:
  "unat (- 1 :: 32 word) = 4294967295" "uint (- 1 :: 32 word) = 4294967295"
  by (simp_all add: unsigned_minus_1_eq_mask mask_eq_exp_minus_1)

subsection \<open>The version parser on the documented formats\<close>

text \<open>
  C5. Parsing \<^verbatim>\<open>v0.6-19-gf363f61-dirty\<close> returns 0 with major byte 0x00, minor byte
  0x06 and aux bytes f3 63 f6 01: the first three bytes of the git hash, and the dirty
  bit set (bit 0 of aux byte 3). The minor token selects no release form (the flag
  \<open>has_release\<close> that \<open>parse_minor\<close> hands on is False).
\<close>

theorem parse_format1_example:
  "convert_version ''v0.6-19-gf363f61-dirty''
     = Inr (0, \<lparr>major = 0x00, minor = 0x06, aux = [0xf3, 0x63, 0xf6, 0x01]\<rparr>)
   \<and> bit (aux \<lparr>major = 0x00, minor = 0x06, aux = [0xf3, 0x63, 0xf6, 0x01]\<rparr> ! 3) 0
   \<and> parse_minor (tokenize (cut_v (c_str ''v0.6-19-gf363f61-dirty'')) ''.-'') (rev_zero\<lparr>major := 0\<rparr>)
     = Inr (rev_zero\<lparr>major := 0, minor := 0x06\<rparr>, False)"
  by (simp add: convert_version_def cut_v_def c_str_def tokenize.simps parse_eval stoi_eval)

text \<open>
  C6. Parsing \<^verbatim>\<open>v2.2r180608p10-g65edf7d-dirty\<close> returns 0 with major byte 0x02 and
  minor byte 0x02. The minor token selects the release form: aux bytes 0-2 are
  18 06 08 (the release number, below the maximum 0x999999), aux byte 3 is the patch
  level 10 shifted into bits 1-7, with the dirty flag in bit 0. The hash token
  \<^verbatim>\<open>g65edf7d\<close> (whose digits would be 65 ed f7) leaves no trace in the result.
\<close>

theorem parse_release_example:
  "convert_version ''v2.2r180608p10-g65edf7d-dirty''
     = Inr (0, \<lparr>major = 0x02, minor = 0x02, aux = [0x18, 0x06, 0x08, push_bit 1 10 OR 1]\<rparr>)
   \<and> parse_minor (tokenize (cut_v (c_str ''v2.2r180608p10-g65edf7d-dirty'')) ''.-'') (rev_zero\<lparr>major := 2\<rparr>)
     = Inr (\<lparr>major = 0x02, minor = 0x02, aux = [0x18, 0x06, 0x08, push_bit 1 10]\<rparr>, True)
   \<and> find_hashstr (drop 2 (tokenize (cut_v (c_str ''v2.2r180608p10-g65edf7d-dirty'')) ''.-'')) = ''65edf7''"
  by (simp add: convert_version_def cut_v_def c_str_def tokenize.simps parse_eval stoi_eval)

text \<open>A release number above the maximum is stored as the maximum.\<close>

lemma release_number_clamped:
  "convert_version ''v2.2rffffff''
     = Inr (0, \<lparr>major = 0x02, minor = 0x02, aux = [0x99, 0x99, 0x99, 0]\<rparr>)"
  by (simp add: convert_version_def cut_v_def c_str_def tokenize.simps parse_eval stoi_eval)

subsection \<open>A version without a hash token\<close>

text \<open>
  Without a release form and with more than three tokens, of which none from index 3 on
  starts with \<^verbatim>\<open>g\<close>, the hash string stays empty and its conversion throws.
\<close>

lemma find_hashstr_none:
  "\<forall>t \<in> set ts. (case t of [] \<Rightarrow> True | c # _ \<Rightarrow> c \<noteq> CHR ''g'') \<Longrightarrow> find_hashstr ts = []"
  by (induction ts) (auto split: list.splits)

lemma stoi_empty: "stoi [] base = Inl invalid_argument"
  by (simp add: stoi_def scan_number_def)

lemma parse_hash_without_g:
  assumes "\<not> has_release" "length tokens > 3"
    and "\<forall>t \<in> set (drop 3 tokens). (case t of [] \<Rightarrow> True | c # _ \<Rightarrow> c \<noteq> CHR ''g'')"
  shows "parse_hash tokens has_release rv = Inl (invalid_argument, rv)"
  using assms by (simp add: parse_hash_def find_hashstr_none stoi_empty)

text \<open>
  With three tokens the hash is not looked for, and the same version without a hash is
  parsed: zero hash bytes and the dirty bit.
\<close>

lemma three_tokens_without_hash:
  "convert_version ''v1.2-dirty''
     = Inr (0, \<lparr>major = 0x01, minor = 0x02, aux = [0, 0, 0, 0x01]\<rparr>)"
  by (simp add: convert_version_def cut_v_def c_str_def tokenize.simps parse_eval stoi_eval)

text \<open>
  C3. With no release form and a fourth token, but no token from index 3 on that starts
  with \<^verbatim>\<open>g\<close>, the parser should return with a zero hash. It does not: on
  \<^verbatim>\<open>v1.99.10-dirty\<close> it throws \<^verbatim>\<open>std::invalid_argument\<close> after major and
  minor have been written, and the dirty flag is lost with the revision.
\<close>

theorem no_hash_token_throws:
  "convert_version ''v1.99.10-dirty''
     = Inl (invalid_argument, \<lparr>major = 0x01, minor = 0x99, aux = [0, 0, 0, 0]\<rparr>)"
  by (simp add: convert_version_def cut_v_def c_str_def tokenize.simps parse_eval stoi_eval)

subsection \<open>The length check of the System GUID handler\<close>

text \<open>
  C4. A UUID property of 33 characters without the hyphens passes the length check
  (33 / 2 = 16): the handler reports no error, runs the loop a 17th time and stores
  through the wrapped index outside the array.
\<close>

theorem sys_guid_33_chars_not_rejected:
  "ipmi_app_get_sys_guid ''61a39523-78f2-11e5-9862-e6402cfc32230'' = OutOfBounds 4294967295"
  by (simp add: ipmi_app_get_sys_guid_def bmc_guid_len_def sys_guid_loop.simps stoi_eval size_t_wrap)

subsection \<open>Evaluating the Device ID handler\<close>

lemmas device_id_eval = ipmi_app_get_device_id_def init_dev_id_def try_convert_def
  set_revision_def minor_to_fw1_def clamp_minor_def char_val_def
  signed_modulo_int_def signed_divide_int_def set_config_def htobe32_bytes_def
  set_availability_def IPMI_DEVID_FW1_MASK_def dev_id_bytes_def dev_state_init_def dev_id_zero_def

lemma convert_version_v0_6:
  "convert_version ''v0.6-19-gf363f61-dirty''
     = Inr (0, \<lparr>major = 0x00, minor = 0x06, aux = [0xf3, 0x63, 0xf6, 0x01]\<rparr>)"
  by (simp add: convert_version_def cut_v_def c_str_def tokenize.simps parse_eval stoi_eval)

lemma convert_version_v1_x:
  "convert_version ''v1.x''
     = Inl (invalid_argument, \<lparr>major = 0x01, minor = 0, aux = [0, 0, 0, 0]\<rparr>)"
  by (simp add: convert_version_def cut_v_def c_str_def tokenize.simps parse_eval stoi_eval)

lemma device_id_first_build:
  "ipmi_app_get_device_id False
     \<lparr>version_info = Some ''v0.6-19-gf363f61-dirty'', config_file = NotOpen, bmc_ready = True\<rparr>
     dev_state_init
   = (IPMI_CC_UNSPECIFIED_ERROR,
      [0, 0, 0x00, 0x06, 2, 0, 0, 0, 0, 0, 0, 0xf3, 0x63, 0xf6, 0x01],
      \<lparr>dev_id = dev_id_zero\<lparr>fw_1 := 0x06, ipmi_ver := 2, aux_0 := 0xf3, aux_1 := 0x63, aux_2 := 0xf6, aux_3 := 0x01\<rparr>,
       dev_id_initialized = False\<rparr>)"
  by (simp add: device_id_eval convert_version_v0_6)

lemma device_id_first_build_not_ready:
  "ipmi_app_get_device_id False
     \<lparr>version_info = Some ''v0.6-19-gf363f61-dirty'', config_file = NotOpen, bmc_ready = False\<rparr>
     dev_state_init
   = (IPMI_CC_UNSPECIFIED_ERROR,
      [0, 0, 0x80, 0x06, 2, 0, 0, 0, 0, 0, 0, 0xf3, 0x63, 0xf6, 0x01],
      \<lparr>dev_id = dev_id_zero\<lparr>fw_0 := 0x80, fw_1 := 0x06, ipmi_ver := 2, aux_0 := 0xf3, aux_1 := 0x63, aux_2 := 0xf6, aux_3 := 0x01\<rparr>,
       dev_id_initialized = False\<rparr>)"
  by (simp add: device_id_eval convert_version_v0_6)

lemma device_id_second_build:
  "ipmi_app_get_device_id False
     \<lparr>version_info = Some ''v0.6-19-gf363f61-dirty'', config_file = NotOpen, bmc_ready = False\<rparr>
     \<lparr>dev_id = dev_id_zero\<lparr>fw_1 := 0x06, ipmi_ver := 2, aux_0 := 0xf3, aux_1 := 0x63, aux_2 := 0xf6, aux_3 := 0x01\<rparr>,
       dev_id_initialized = False\<rparr>
   = (IPMI_CC_UNSPECIFIED_ERROR,
      [0, 0, 0x80, 0x06, 2, 0, 0, 0, 0, 0, 0, 0xf3, 0x63, 0xf6, 0x01],
      \<lparr>dev_id = dev_id_zero\<lparr>fw_0 := 0x80, fw_1 := 0x06, ipmi_ver := 2, aux_0 := 0xf3, aux_1 := 0x63, aux_2 := 0xf6, aux_3 := 0x01\<rparr>,
       dev_id_initialized = False\<rparr>)"
  by (simp add: device_id_eval convert_version_v0_6)

lemma device_id_third_build:
  "ipmi_app_get_device_id False
     \<lparr>version_info = Some ''v0.6-19-gf363f61-dirty'', config_file = NotOpen, bmc_ready = False\<rparr>
     \<lparr>dev_id = dev_id_zero\<lparr>fw_0 := 0x80, fw_1 := 0x06, ipmi_ver := 2, aux_0 := 0xf3, aux_1 := 0x63, aux_2 := 0xf6, aux_3 := 0x01\<rparr>,
       dev_id_initialized = False\<rparr>
   = (IPMI_CC_UNSPECIFIED_ERROR,
      [0, 0, 0x80, 0x06, 2, 0, 0, 0, 0, 0, 0, 0xf3, 0x63, 0xf6, 0x01],
      \<lparr>dev_id = dev_id_zero\<lparr>fw_0 := 0x80, fw_1 := 0x06, ipmi_ver := 2, aux_0 := 0xf3, aux_1 := 0x63, aux_2 := 0xf6, aux_3 := 0x01\<rparr>,
       dev_id_initialized = False\<rparr>)"
  by (simp add: device_id_eval convert_version_v0_6)

subsection \<open>The minor revision in firmware byte 1\<close>

lemma bcd_decode:
  fixes v :: int
  assumes "0 \<le> v" "v \<le> 99"
  shows "uint ((word_of_int (v mod 10 + (v div 10) * 16) :: byte) AND 0xF)
           + uint (drop_bit 4 (word_of_int (v mod 10 + (v div 10) * 16) :: byte)) * 10 = v"
proof -
  define x where "x = v mod 10 + (v div 10) * 16"
  have x: "0 \<le> x" "x < 256" using assms unfolding x_def by auto
  have m: "x mod 16 = v mod 10" using assms unfolding x_def by auto
  have d: "x div 16 = v div 10" using assms unfolding x_def by auto
  have u: "uint (word_of_int x :: byte) = x"
    using x by (simp add: uint_word_of_int take_bit_eq_mod)
  have a: "uint ((word_of_int x :: byte) AND 0xF) = x mod 16"
  proof -
    have "(word_of_int x :: byte) AND 0xF = take_bit 4 (word_of_int x :: byte)"
      using take_bit_eq_mask [of 4 "word_of_int x :: byte"] by (simp add: mask_eq_exp_minus_1)
    then have "uint ((word_of_int x :: byte) AND 0xF) = take_bit 4 (uint (word_of_int x :: byte))"
      by (simp only: unsigned_take_bit_eq)
    also have "\<dots> = x mod 16" unfolding u by (simp add: take_bit_eq_mod)
    finally show ?thesis .
  qed
  have b: "uint (drop_bit 4 (word_of_int x :: byte)) = x div 16"
  proof -
    have "uint (drop_bit 4 (word_of_int x :: byte))
            = drop_bit 4 (take_bit LENGTH(8) (uint (word_of_int x :: byte)))"
      by (rule unsigned_drop_bit_eq)
    also have "\<dots> = x div 16"
      unfolding u using x by (simp add: take_bit_eq_mod drop_bit_eq_div)
    finally show ?thesis .
  qed
  show ?thesis unfolding x_def [symmetric] a b m d by simp
qed

lemma smod_sdiv_nonneg:
  fixes v :: int
  assumes "0 \<le> v"
  shows "v smod 10 = v mod 10" "v sdiv 10 = v div 10"
  using assms by (simp_all add: signed_modulo_int_def signed_divide_int_def sgn_if)

lemma minor_to_fw1_nonneg:
  assumes "0 \<le> char_val sg m"
  shows "minor_to_fw1 sg m = word_of_int (clamp_minor sg m mod 10 + (clamp_minor sg m div 10) * 16)"
    and "0 \<le> clamp_minor sg m" and "clamp_minor sg m \<le> 99"
  using assms by (simp_all add: minor_to_fw1_def clamp_minor_def Let_def smod_sdiv_nonneg)

text \<open>
  What lines 401-402 do with the value of the minor byte, where plain \<^verbatim>\<open>char\<close> is
  unsigned: firmware byte 1 is \<open>v mod 10 + (v div 10) * 16\<close> for the byte value clamped
  to \<open>v = min minor 99\<close>, and \<open>(byte & 0xF) + (byte >> 4) * 10\<close> of the stored byte is
  \<open>v\<close> again.
\<close>

lemma fw1_decodes_to_clamped_byte:
  "fw_1 (set_revision False rv d)
     = word_of_int (min (uint (minor rv)) 99 mod 10 + (min (uint (minor rv)) 99 div 10) * 16)
   \<and> uint (fw_1 (set_revision False rv d) AND 0xF)
       + uint (drop_bit 4 (fw_1 (set_revision False rv d))) * 10 = min (uint (minor rv)) 99
   \<and> 0 \<le> min (uint (minor rv)) 99 \<and> min (uint (minor rv)) 99 \<le> 99"
proof -
  have c: "clamp_minor False (minor rv) = min (uint (minor rv)) 99"
    by (simp add: clamp_minor_def char_val_def min_def)
  have nn: "0 \<le> char_val False (minor rv)" by (simp add: char_val_def)
  have f: "fw_1 (set_revision False rv d) = minor_to_fw1 False (minor rv)"
    by (simp add: set_revision_def)
  note e = minor_to_fw1_nonneg [OF nn]
  have r: "0 \<le> min (uint (minor rv)) 99" "min (uint (minor rv)) 99 \<le> 99" by simp_all
  show ?thesis
    unfolding f e(1) c using bcd_decode [OF r] r by simp
qed

text \<open>
  The same holds where \<^verbatim>\<open>char\<close> is signed as long as the minor byte is not negative
  as a \<^verbatim>\<open>char\<close>; a byte from 0x80 on is negative there, is not clamped, and the
  truncating division gives another byte (0x99 gives 0x5D).
\<close>

lemma fw1_decodes_to_clamped_byte_signed:
  assumes "0 \<le> sint (minor rv)"
  shows "uint (fw_1 (set_revision True rv d) AND 0xF)
       + uint (drop_bit 4 (fw_1 (set_revision True rv d))) * 10 = min (sint (minor rv)) 99"
proof -
  have c: "clamp_minor True (minor rv) = min (sint (minor rv)) 99"
    by (simp add: clamp_minor_def char_val_def min_def)
  have nn: "0 \<le> char_val True (minor rv)" using assms by (simp add: char_val_def)
  have f: "fw_1 (set_revision True rv d) = minor_to_fw1 True (minor rv)"
    by (simp add: set_revision_def)
  note e = minor_to_fw1_nonneg [OF nn]
  have r: "0 \<le> min (sint (minor rv)) 99" "min (sint (minor rv)) 99 \<le> 99" using assms by simp_all
  show ?thesis
    unfolding f e(1) c using bcd_decode [OF r] by simp
qed

lemma minor_bcd_signed_char:
  "minor_to_fw1 True 0x99 = 0x5D"
  by (simp add: minor_to_fw1_def clamp_minor_def char_val_def signed_modulo_int_def signed_divide_int_def)

text \<open>The handler stores that byte whenever the parser returned a revision.\<close>

lemma device_id_fw1_from_revision:
  assumes "\<not> dev_id_initialized st" "try_convert (version_info env) = (r, rv)" "0 \<le> r"
    and "ipmi_app_get_device_id sg env st = (rc, resp, st')"
  shows "resp ! 3 = minor_to_fw1 sg (minor rv)"
  using assms
  by (auto simp: ipmi_app_get_device_id_def init_dev_id_def Let_def set_revision_def
      set_config_def set_availability_def dev_id_bytes_def split: dev_id_file.splits if_splits)

text \<open>
  The byte value that is clamped and encoded is not the minor of the version: the parser
  reads the minor token in base 16, so that the byte it hands over is the BCD form
  already (minor 10 is the byte 0x10, of value 16).
\<close>

lemma convert_version_v10_10:
  "convert_version ''v10.10-19-gf363f61-dirty''
     = Inr (0, \<lparr>major = 0x10, minor = 0x10, aux = [0xf3, 0x63, 0xf6, 0x01]\<rparr>)"
  by (simp add: convert_version_def cut_v_def c_str_def tokenize.simps parse_eval stoi_eval)

lemma convert_version_v0_63:
  "convert_version ''v0.63'' = Inr (0, \<lparr>major = 0x00, minor = 0x63, aux = [0, 0, 0, 0]\<rparr>)"
  by (simp add: convert_version_def cut_v_def c_str_def tokenize.simps parse_eval stoi_eval)

text \<open>Minor 63 has the byte value 99 and is stored as 0x99, as minor 99 is.\<close>

lemma minor_63_stored_as_99:
  "fst (snd (ipmi_app_get_device_id False
     \<lparr>version_info = Some ''v0.63'', config_file = NotOpen, bmc_ready = True\<rparr>
     dev_state_init)) ! 3 = 0x99"
  by (simp add: device_id_eval convert_version_v0_63)

text \<open>
  C9. Decoding firmware byte 1 of the response by \<open>(byte & 0xF) + (byte >> 4) * 10\<close>
  should give the minor of the version, clamped to 99. It does not: for version
  \<^verbatim>\<open>v10.10-19-gf363f61-dirty\<close> the handler, with either signedness of plain
  \<^verbatim>\<open>char\<close>, answers with firmware byte 1 = 0x16, which decodes to 16, while firmware
  byte 0, the major that is stored as the parser delivers it, is 0x10 and decodes to 10.
\<close>

theorem minor_encoded_twice:
  "ipmi_app_get_device_id char_signed
     \<lparr>version_info = Some ''v10.10-19-gf363f61-dirty'', config_file = NotOpen, bmc_ready = True\<rparr>
     dev_state_init
   = (IPMI_CC_UNSPECIFIED_ERROR,
      [0, 0, 0x10, 0x16, 2, 0, 0, 0, 0, 0, 0, 0xf3, 0x63, 0xf6, 0x01],
      \<lparr>dev_id = dev_id_zero\<lparr>fw_0 := 0x10, fw_1 := 0x16, ipmi_ver := 2,
                                aux_0 := 0xf3, aux_1 := 0x63, aux_2 := 0xf6, aux_3 := 0x01\<rparr>,
       dev_id_initialized = False\<rparr>)
   \<and> uint ((0x16 :: byte) AND 0xF) + uint (drop_bit 4 (0x16 :: byte)) * 10 = 16
   \<and> uint ((0x10 :: byte) AND 0xF) + uint (drop_bit 4 (0x10 :: byte)) * 10 = 10"
  by (cases char_signed) (simp_all add: device_id_eval convert_version_v10_10)

subsection \<open>The availability bit\<close>

lemma fw1_mask_val: "IPMI_DEVID_FW1_MASK = 0x7F"
  by (simp add: IPMI_DEVID_FW1_MASK_def)

lemma mask_or_mask: "((x AND IPMI_DEVID_FW1_MASK) OR 128) AND IPMI_DEVID_FW1_MASK = x AND IPMI_DEVID_FW1_MASK"
  for x :: byte
proof -
  have "((x AND NOT (push_bit 7 1)) OR push_bit 7 1) AND NOT (push_bit 7 1) = x AND NOT (push_bit 7 1)"
    by (rule bit_eqI) (auto simp: bit_simps)
  then show ?thesis by (simp add: IPMI_DEVID_FW1_MASK_def)
qed

lemma mask_mask: "(x AND IPMI_DEVID_FW1_MASK) AND IPMI_DEVID_FW1_MASK = x AND IPMI_DEVID_FW1_MASK"
  for x :: byte
  by (simp add: and.assoc)

lemma bit7_masked: "\<not> bit (x AND IPMI_DEVID_FW1_MASK) 7" for x :: byte
  unfolding IPMI_DEVID_FW1_MASK_def by (simp add: bit_simps)

lemma bit7_set: "bit ((x AND IPMI_DEVID_FW1_MASK) OR 128) 7" for x :: byte
proof -
  have "bit ((x AND IPMI_DEVID_FW1_MASK) OR push_bit 7 1) 7"
    by (simp add: bit_simps)
  then show ?thesis by simp
qed

lemma static_part_set_availability: "static_part (set_availability a d) = static_part d"
  by (simp add: static_part_def set_availability_def Let_def mask_or_mask mask_mask)

lemma set_availability_static_part: "set_availability a (static_part d) = set_availability a d"
  by (simp add: static_part_def set_availability_def Let_def mask_mask)

lemma set_availability_eq:
  "static_part d1 = static_part d2 \<Longrightarrow> set_availability a d1 = set_availability a d2"
  by (metis set_availability_static_part)

lemma set_availability_bit7: "bit (fw_0 (set_availability a d)) 7 \<longleftrightarrow> \<not> a"
  by (simp add: set_availability_def Let_def bit7_masked bit7_set del: bit_and_iff bit_or_iff)

lemma dev_id_bytes_static:
  "(dev_id_bytes d)[2 := dev_id_bytes d ! 2 AND IPMI_DEVID_FW1_MASK] = dev_id_bytes (static_part d)"
  by (simp add: dev_id_bytes_def static_part_def)

lemma dev_id_bytes_fw0: "dev_id_bytes d ! 2 = fw_0 d"
  by (simp add: dev_id_bytes_def)

text \<open>The handler in terms of the statics before and after.\<close>

lemma handler_initialized:
  "dev_id_initialized st \<Longrightarrow>
   ipmi_app_get_device_id sg env st =
     (IPMI_CC_OK, dev_id_bytes (set_availability (bmc_ready env) (dev_id st)),
      st\<lparr>dev_id := set_availability (bmc_ready env) (dev_id st)\<rparr>)"
  by (simp add: ipmi_app_get_device_id_def)

lemma handler_response_is_statics:
  "ipmi_app_get_device_id sg env st = (rc, resp, st') \<Longrightarrow> resp = dev_id_bytes (dev_id st')"
  by (auto simp: ipmi_app_get_device_id_def Let_def split: prod.splits if_splits)

lemma handler_bit7:
  "ipmi_app_get_device_id sg env st = (rc, resp, st') \<Longrightarrow> bit (resp ! 2) 7 \<longleftrightarrow> \<not> bmc_ready env"
  by (auto simp: ipmi_app_get_device_id_def Let_def dev_id_bytes_fw0 set_availability_bit7
      split: prod.splits if_splits)

lemma init_dev_id_ready_irrelevant:
  "init_dev_id sg (env\<lparr>bmc_ready := a\<rparr>) st = init_dev_id sg env st"
  by (simp add: init_dev_id_def)

lemma set_revision_absorbs_availability:
  "set_revision sg rv (set_availability a d) = set_revision sg rv d"
  by (simp add: set_revision_def set_availability_def Let_def)

lemma set_revision_idem:
  "set_revision sg rv (set_revision sg rv d) = set_revision sg rv d"
  by (simp add: set_revision_def)

lemma set_revision_ipmi_ver:
  "set_revision sg rv (d\<lparr>ipmi_ver := v\<rparr>) = (set_revision sg rv d)\<lparr>ipmi_ver := v\<rparr>"
  by (simp add: set_revision_def)

lemma set_availability_ipmi_ver:
  "set_availability a (d\<lparr>ipmi_ver := v\<rparr>) = (set_availability a d)\<lparr>ipmi_ver := v\<rparr>"
  "ipmi_ver (set_availability a d) = ipmi_ver d"
  by (simp_all add: set_availability_def Let_def)

lemma static_part_ipmi_ver:
  "static_part (d\<lparr>ipmi_ver := v\<rparr>) = (static_part d)\<lparr>ipmi_ver := v\<rparr>"
  by (simp add: static_part_def)

text \<open>Two consecutive invocations with the same version and config sources.\<close>

lemma handler_twice_static:
  assumes 1: "ipmi_app_get_device_id sg (env\<lparr>bmc_ready := a1\<rparr>) st = (rc1, resp1, st1)"
      and 2: "ipmi_app_get_device_id sg (env\<lparr>bmc_ready := a2\<rparr>) st1 = (rc2, resp2, st2)"
  shows "static_part (dev_id st2) = static_part (dev_id st1)"
proof (cases "dev_id_initialized st1")
  case True
  with 2 show ?thesis
    by (auto simp: handler_initialized static_part_set_availability)
next
  case False
  with 1 have ni: "\<not> dev_id_initialized st"
    by (auto simp: ipmi_app_get_device_id_def Let_def split: prod.splits if_splits)
  obtain r rv where tc: "try_convert (version_info env) = (r, rv)"
    by (cases "try_convert (version_info env)")
  from False 1 ni have nc: "\<forall>data. config_file env \<noteq> Parsed data"
    by (auto simp: ipmi_app_get_device_id_def init_dev_id_def Let_def tc
        split: prod.splits if_splits dev_id_file.splits)
  define F where "F d = (if r \<ge> 0 then set_revision sg rv d else d)\<lparr>ipmi_ver := 2\<rparr>" for d
  have s1: "dev_id st1 = set_availability a1 (F (dev_id st))"
    using 1 ni nc
    by (auto simp: ipmi_app_get_device_id_def init_dev_id_def Let_def tc F_def
        split: prod.splits if_splits dev_id_file.splits)
  have s2: "dev_id st2 = set_availability a2 (F (dev_id st1))"
    using 2 False nc
    by (auto simp: ipmi_app_get_device_id_def init_dev_id_def Let_def tc F_def
        split: prod.splits if_splits dev_id_file.splits)
  have "static_part (F (set_availability a1 (F d))) = static_part (F d)" for d
    by (simp add: F_def set_revision_absorbs_availability set_revision_ipmi_ver set_revision_idem
        set_availability_ipmi_ver static_part_ipmi_ver static_part_set_availability)
  then show ?thesis
    by (simp add: s1 s2 static_part_set_availability)
qed

text \<open>Two invocations from the same statics.\<close>

lemma handler_same_state_static:
  assumes 1: "ipmi_app_get_device_id sg (env\<lparr>bmc_ready := a1\<rparr>) st = (rc1, resp1, st1)"
      and 3: "ipmi_app_get_device_id sg (env\<lparr>bmc_ready := a3\<rparr>) st = (rc3, resp3, st3)"
  shows "static_part (dev_id st3) = static_part (dev_id st1)"
  using 1 3
  by (auto simp: ipmi_app_get_device_id_def init_dev_id_ready_irrelevant Let_def
      static_part_set_availability split: prod.splits if_splits)

lemma set_availability_idem: "set_availability a (set_availability a d) = set_availability a d"
  by (metis set_availability_eq static_part_set_availability)

lemma handler_statics_available:
  "ipmi_app_get_device_id sg env st = (rc, resp, st') \<Longrightarrow>
   set_availability (bmc_ready env) (dev_id st') = dev_id st'"
  by (auto simp: ipmi_app_get_device_id_def Let_def set_availability_idem
      split: prod.splits if_splits)

lemma same_static_same_availability:
  assumes "static_part d1 = static_part d2"
      and "set_availability a d1 = d1" and "set_availability a d2 = d2"
  shows "d1 = d2"
  using assms set_availability_eq by metis

text \<open>
  C8. Take a build with availability \<open>a1\<close>, then, with the same version and config
  sources, the next build and a build from the same statics, both with availability
  \<open>a2\<close>. Their responses agree with the first in every byte once bit 7 of byte 2
  (firmware byte 0) is masked out, they are equal to it when \<open>a1 = a2\<close>, and in each
  response bit 7 of firmware byte 0 is set exactly when the BMC is not ready.
\<close>

theorem availability_changes_only_bit7:
  assumes 1: "ipmi_app_get_device_id sg (env\<lparr>bmc_ready := a1\<rparr>) st = (rc1, resp1, st1)"
      and 2: "ipmi_app_get_device_id sg (env\<lparr>bmc_ready := a2\<rparr>) st1 = (rc2, resp2, st2)"
      and 3: "ipmi_app_get_device_id sg (env\<lparr>bmc_ready := a2\<rparr>) st = (rc3, resp3, st3)"
  shows "resp2[2 := resp2 ! 2 AND 0x7F] = resp1[2 := resp1 ! 2 AND 0x7F]
       \<and> resp3[2 := resp3 ! 2 AND 0x7F] = resp1[2 := resp1 ! 2 AND 0x7F]
       \<and> (a1 = a2 \<longrightarrow> resp2 = resp1 \<and> resp3 = resp1)
       \<and> (bit (resp1 ! 2) 7 \<longleftrightarrow> \<not> a1)
       \<and> (bit (resp2 ! 2) 7 \<longleftrightarrow> \<not> a2)
       \<and> (bit (resp3 ! 2) 7 \<longleftrightarrow> \<not> a2)"
proof -
  note r = handler_response_is_statics [OF 1] handler_response_is_statics [OF 2]
    handler_response_is_statics [OF 3]
  have s21: "static_part (dev_id st2) = static_part (dev_id st1)"
    by (rule handler_twice_static [OF 1 2])
  have s31: "static_part (dev_id st3) = static_part (dev_id st1)"
    by (rule handler_same_state_static [OF 1 3])
  have m: "(dev_id_bytes d)[2 := dev_id_bytes d ! 2 AND 0x7F] = dev_id_bytes (static_part d)" for d
    using dev_id_bytes_static [of d] by (simp add: fw1_mask_val)
  have c1: "resp2[2 := resp2 ! 2 AND 0x7F] = resp1[2 := resp1 ! 2 AND 0x7F]"
    unfolding r m s21 ..
  have c2: "resp3[2 := resp3 ! 2 AND 0x7F] = resp1[2 := resp1 ! 2 AND 0x7F]"
    unfolding r m s31 ..
  have c3: "a1 = a2 \<longrightarrow> resp2 = resp1 \<and> resp3 = resp1"
  proof
    assume e: "a1 = a2"
    note av = handler_statics_available [OF 1] handler_statics_available [OF 2]
      handler_statics_available [OF 3]
    have "dev_id st2 = dev_id st1"
      using same_static_same_availability [OF s21, of a2] av e by simp
    moreover have "dev_id st3 = dev_id st1"
      using same_static_same_availability [OF s31, of a2] av e by simp
    ultimately show "resp2 = resp1 \<and> resp3 = resp1" by (simp add: r)
  qed
  have c4: "bit (resp1 ! 2) 7 \<longleftrightarrow> \<not> a1" using handler_bit7 [OF 1] by simp
  have c5: "bit (resp2 ! 2) 7 \<longleftrightarrow> \<not> a2" using handler_bit7 [OF 2] by simp
  have c6: "bit (resp3 ! 2) 7 \<longleftrightarrow> \<not> a2" using handler_bit7 [OF 3] by simp
  from c1 c2 c3 c4 c5 c6 show ?thesis by blast
qed

theorem availability_changes_only_bit7_witness:
  "ipmi_app_get_device_id False
     \<lparr>version_info = Some ''v0.6-19-gf363f61-dirty'', config_file = NotOpen, bmc_ready = True\<rparr>
     dev_state_init
   = (IPMI_CC_UNSPECIFIED_ERROR,
      [0, 0, 0x00, 0x06, 2, 0, 0, 0, 0, 0, 0, 0xf3, 0x63, 0xf6, 0x01],
      \<lparr>dev_id = dev_id_zero\<lparr>fw_1 := 0x06, ipmi_ver := 2, aux_0 := 0xf3, aux_1 := 0x63, aux_2 := 0xf6, aux_3 := 0x01\<rparr>,
       dev_id_initialized = False\<rparr>)
   \<and> ipmi_app_get_device_id False
     \<lparr>version_info = Some ''v0.6-19-gf363f61-dirty'', config_file = NotOpen, bmc_ready = False\<rparr>
     \<lparr>dev_id = dev_id_zero\<lparr>fw_1 := 0x06, ipmi_ver := 2, aux_0 := 0xf3, aux_1 := 0x63, aux_2 := 0xf6, aux_3 := 0x01\<rparr>,
       dev_id_initialized = False\<rparr>
   = (IPMI_CC_UNSPECIFIED_ERROR,
      [0, 0, 0x80, 0x06, 2, 0, 0, 0, 0, 0, 0, 0xf3, 0x63, 0xf6, 0x01],
      \<lparr>dev_id = dev_id_zero\<lparr>fw_0 := 0x80, fw_1 := 0x06, ipmi_ver := 2, aux_0 := 0xf3, aux_1 := 0x63, aux_2 := 0xf6, aux_3 := 0x01\<rparr>,
       dev_id_initialized = False\<rparr>)
   \<and> ipmi_app_get_device_id False
     \<lparr>version_info = Some ''v0.6-19-gf363f61-dirty'', config_file = NotOpen, bmc_ready = False\<rparr>
     dev_state_init
   = (IPMI_CC_UNSPECIFIED_ERROR,
      [0, 0, 0x80, 0x06, 2, 0, 0, 0, 0, 0, 0, 0xf3, 0x63, 0xf6, 0x01],
      \<lparr>dev_id = dev_id_zero\<lparr>fw_0 := 0x80, fw_1 := 0x06, ipmi_ver := 2, aux_0 := 0xf3, aux_1 := 0x63, aux_2 := 0xf6, aux_3 := 0x01\<rparr>,
       dev_id_initialized = False\<rparr>)
   \<and> ipmi_app_get_device_id False
     \<lparr>version_info = Some ''v0.6-19-gf363f61-dirty'', config_file = NotOpen, bmc_ready = False\<rparr>
     \<lparr>dev_id = dev_id_zero\<lparr>fw_0 := 0x80, fw_1 := 0x06, ipmi_ver := 2, aux_0 := 0xf3, aux_1 := 0x63, aux_2 := 0xf6, aux_3 := 0x01\<rparr>,
       dev_id_initialized = False\<rparr>
   = (IPMI_CC_UNSPECIFIED_ERROR,
      [0, 0, 0x80, 0x06, 2, 0, 0, 0, 0, 0, 0, 0xf3, 0x63, 0xf6, 0x01],
      \<lparr>dev_id = dev_id_zero\<lparr>fw_0 := 0x80, fw_1 := 0x06, ipmi_ver := 2, aux_0 := 0xf3, aux_1 := 0x63, aux_2 := 0xf6, aux_3 := 0x01\<rparr>,
       dev_id_initialized = False\<rparr>)
   \<and> ([0, 0, 0x80, 0x06, 2, 0, 0, 0, 0, 0, 0, 0xf3, 0x63, 0xf6, 0x01] :: byte list)[2 := [0, 0, 0x80, 0x06, 2, 0, 0, 0, 0, 0, 0, 0xf3, 0x63, 0xf6, 0x01] ! 2 AND 0x7F]
      = [0, 0, 0x00, 0x06, 2, 0, 0, 0, 0, 0, 0, 0xf3, 0x63, 0xf6, 0x01][2 := [0, 0, 0x00, 0x06, 2, 0, 0, 0, 0, 0, 0, 0xf3, 0x63, 0xf6, 0x01] ! 2 AND 0x7F]
   \<and> \<not> bit ([0, 0, 0x00, 0x06, 2, 0, 0, 0, 0, 0, 0, 0xf3, 0x63, 0xf6, 0x01] ! 2 :: byte) 7
   \<and> bit ([0, 0, 0x80, 0x06, 2, 0, 0, 0, 0, 0, 0, 0xf3, 0x63, 0xf6, 0x01] ! 2 :: byte) 7"
proof -
  let ?env = "\<lparr>version_info = Some ''v0.6-19-gf363f61-dirty'', config_file = NotOpen, bmc_ready = True\<rparr>"
  have 1: "ipmi_app_get_device_id False (?env\<lparr>bmc_ready := True\<rparr>) dev_state_init
   = (IPMI_CC_UNSPECIFIED_ERROR,
      [0, 0, 0x00, 0x06, 2, 0, 0, 0, 0, 0, 0, 0xf3, 0x63, 0xf6, 0x01],
      \<lparr>dev_id = dev_id_zero\<lparr>fw_1 := 0x06, ipmi_ver := 2, aux_0 := 0xf3, aux_1 := 0x63, aux_2 := 0xf6, aux_3 := 0x01\<rparr>,
       dev_id_initialized = False\<rparr>)"
    using device_id_first_build by simp
  have 2: "ipmi_app_get_device_id False (?env\<lparr>bmc_ready := False\<rparr>)
     \<lparr>dev_id = dev_id_zero\<lparr>fw_1 := 0x06, ipmi_ver := 2, aux_0 := 0xf3, aux_1 := 0x63, aux_2 := 0xf6, aux_3 := 0x01\<rparr>,
       dev_id_initialized = False\<rparr>
   = (IPMI_CC_UNSPECIFIED_ERROR,
      [0, 0, 0x80, 0x06, 2, 0, 0, 0, 0, 0, 0, 0xf3, 0x63, 0xf6, 0x01],
      \<lparr>dev_id = dev_id_zero\<lparr>fw_0 := 0x80, fw_1 := 0x06, ipmi_ver := 2, aux_0 := 0xf3, aux_1 := 0x63, aux_2 := 0xf6, aux_3 := 0x01\<rparr>,
       dev_id_initialized = False\<rparr>)"
    using device_id_second_build by simp
  have 3: "ipmi_app_get_device_id False (?env\<lparr>bmc_ready := False\<rparr>) dev_state_init
   = (IPMI_CC_UNSPECIFIED_ERROR,
      [0, 0, 0x80, 0x06, 2, 0, 0, 0, 0, 0, 0, 0xf3, 0x63, 0xf6, 0x01],
      \<lparr>dev_id = dev_id_zero\<lparr>fw_0 := 0x80, fw_1 := 0x06, ipmi_ver := 2, aux_0 := 0xf3, aux_1 := 0x63, aux_2 := 0xf6, aux_3 := 0x01\<rparr>,
       dev_id_initialized = False\<rparr>)"
    using device_id_first_build_not_ready by simp
  have 4: "ipmi_app_get_device_id False (?env\<lparr>bmc_ready := False\<rparr>)
     \<lparr>dev_id = dev_id_zero\<lparr>fw_0 := 0x80, fw_1 := 0x06, ipmi_ver := 2, aux_0 := 0xf3, aux_1 := 0x63, aux_2 := 0xf6, aux_3 := 0x01\<rparr>,
       dev_id_initialized = False\<rparr>
   = (IPMI_CC_UNSPECIFIED_ERROR,
      [0, 0, 0x80, 0x06, 2, 0, 0, 0, 0, 0, 0, 0xf3, 0x63, 0xf6, 0x01],
      \<lparr>dev_id = dev_id_zero\<lparr>fw_0 := 0x80, fw_1 := 0x06, ipmi_ver := 2, aux_0 := 0xf3, aux_1 := 0x63, aux_2 := 0xf6, aux_3 := 0x01\<rparr>,
       dev_id_initialized = False\<rparr>)"
    using device_id_third_build by simp
  from availability_changes_only_bit7 [OF 1 2 3] availability_changes_only_bit7 [OF 3 4 3]
    1 2 3 4
  show ?thesis by simp
qed

subsection \<open>The cache of the static fields\<close>

lemma run_initialized:
  "dev_id_initialized st \<Longrightarrow>
   (case run_device_id sg envs st of
      (resps, st') \<Rightarrow>
        dev_id_initialized st' \<and> static_part (dev_id st') = static_part (dev_id st)
        \<and> (\<forall>resp \<in> set resps. resp[2 := resp ! 2 AND 0x7F] = dev_id_bytes (static_part (dev_id st))))"
proof (induction envs arbitrary: st)
  case Nil
  then show ?case by simp
next
  case (Cons env envs)
  let ?d = "set_availability (bmc_ready env) (dev_id st)"
  let ?st1 = "st\<lparr>dev_id := ?d\<rparr>"
  have h: "ipmi_app_get_device_id sg env st = (IPMI_CC_OK, dev_id_bytes ?d, ?st1)"
    using Cons.prems by (rule handler_initialized)
  have i1: "dev_id_initialized ?st1" using Cons.prems by simp
  have s1: "static_part (dev_id ?st1) = static_part (dev_id st)"
    by (simp add: static_part_set_availability)
  have b: "(dev_id_bytes ?d)[2 := dev_id_bytes ?d ! 2 AND 0x7F] = dev_id_bytes (static_part (dev_id st))"
    using dev_id_bytes_static [of ?d] by (simp add: fw1_mask_val static_part_set_availability)
  from Cons.IH [OF i1] show ?case
    unfolding run_device_id.simps h s1 using b by (auto split: prod.splits)
qed

lemma handler_initialized_iff:
  "dev_id_initialized (snd (snd (ipmi_app_get_device_id sg env st)))
     \<longleftrightarrow> dev_id_initialized st \<or> (\<exists>data. config_file env = Parsed data)"
  by (auto simp: ipmi_app_get_device_id_def init_dev_id_def Let_def
      split: prod.splits dev_id_file.splits)

lemma set_availability_fields:
  "set_availability a d = d\<lparr>fw_0 := (fw_0 d AND IPMI_DEVID_FW1_MASK) OR (if a then 0 else 128)\<rparr>"
  by (simp add: set_availability_def Let_def)

text \<open>
  What an invocation with the flag unset leaves in the statics, field by field:
  \<open>from_file\<close> takes a field from the config file when it was opened and parsed and
  keeps the old value otherwise, \<open>from_rev\<close> takes it from the parsed revision when the
  parser returned 0 and keeps the old value otherwise.
\<close>

lemma handler_uninitialized_statics:
  assumes "\<not> dev_id_initialized st"
  shows
   "(let (r, rv) = try_convert (version_info env);
         d = dev_id st;
         from_file = (\<lambda>f old. case config_file env of Parsed data \<Rightarrow> f data | _ \<Rightarrow> old);
         from_rev = (\<lambda>new old. if 0 \<le> r then new else old)
     in static_part (dev_id (snd (snd (ipmi_app_get_device_id sg env st)))) =
        \<lparr>id_f = from_file (\<lambda>data. ucast (j_id data)) (id_f d),
         revision = from_file (\<lambda>data. ucast (j_revision data)) (revision d),
         fw_0 = from_rev (major rv) (fw_0 d) AND 0x7F,
         fw_1 = from_rev (minor_to_fw1 sg (minor rv)) (fw_1 d),
         ipmi_ver = 2,
         addn_dev_support = from_file (\<lambda>data. ucast (j_addn_dev_support data)) (addn_dev_support d),
         manuf_id_0 = from_file (\<lambda>data. ucast (j_manuf_id data)) (manuf_id_0 d),
         manuf_id_1 = from_file (\<lambda>data. ucast (signed_drop_bit 8 (j_manuf_id data))) (manuf_id_1 d),
         manuf_id_2 = from_file (\<lambda>data. ucast (signed_drop_bit 16 (j_manuf_id data))) (manuf_id_2 d),
         prod_id_0 = from_file (\<lambda>data. ucast (j_prod_id data)) (prod_id_0 d),
         prod_id_1 = from_file (\<lambda>data. ucast (signed_drop_bit 8 (j_prod_id data))) (prod_id_1 d),
         aux_0 = from_file (\<lambda>data. if j_aux data \<noteq> 0 then ucast (drop_bit 24 (j_aux data))
                                     else from_rev (aux rv ! 0) (aux_0 d))
                           (from_rev (aux rv ! 0) (aux_0 d)),
         aux_1 = from_file (\<lambda>data. if j_aux data \<noteq> 0 then ucast (drop_bit 16 (j_aux data))
                                     else from_rev (aux rv ! 1) (aux_1 d))
                           (from_rev (aux rv ! 1) (aux_1 d)),
         aux_2 = from_file (\<lambda>data. if j_aux data \<noteq> 0 then ucast (drop_bit 8 (j_aux data))
                                     else from_rev (aux rv ! 2) (aux_2 d))
                           (from_rev (aux rv ! 2) (aux_2 d)),
         aux_3 = from_file (\<lambda>data. if j_aux data \<noteq> 0 then ucast (j_aux data)
                                     else from_rev (aux rv ! 3) (aux_3 d))
                           (from_rev (aux rv ! 3) (aux_3 d))\<rparr>)"
proof -
  obtain r rv where tc: "try_convert (version_info env) = (r, rv)"
    by (cases "try_convert (version_info env)")
  obtain i1 i2 i3 i4 i5 i6 i7 i8 i9 i10 i11 i12 i13 i14 i15 where
    d: "dev_id st = \<lparr>id_f = i1, revision = i2, fw_0 = i3, fw_1 = i4, ipmi_ver = i5,
      addn_dev_support = i6, manuf_id_0 = i7, manuf_id_1 = i8, manuf_id_2 = i9, prod_id_0 = i10,
      prod_id_1 = i11, aux_0 = i12, aux_1 = i13, aux_2 = i14, aux_3 = i15\<rparr>"
    by (cases "dev_id st") auto
  show ?thesis
  proof (cases "config_file env")
    case NotOpen
    then show ?thesis using assms
      by (simp add: ipmi_app_get_device_id_def init_dev_id_def tc d Let_def static_part_def
          set_availability_fields set_revision_def mask_or_mask mask_mask fw1_mask_val [symmetric])
  next
    case Discarded
    then show ?thesis using assms
      by (simp add: ipmi_app_get_device_id_def init_dev_id_def tc d Let_def static_part_def
          set_availability_fields set_revision_def mask_or_mask mask_mask fw1_mask_val [symmetric])
  next
    case (Parsed data)
    then show ?thesis using assms
      by (simp add: ipmi_app_get_device_id_def init_dev_id_def tc d Let_def static_part_def
          set_availability_fields set_revision_def set_config_def htobe32_bytes_def
          mask_or_mask mask_mask fw1_mask_val [symmetric])
  qed
qed

text \<open>
  C1, as the code has it, in three parts. (1) An invocation leaves
  \<open>dev_id_initialized\<close> set exactly when it was set before or the config file was opened
  and parsed in this invocation. (2) Every invocation that finds the flag unset computes
  the static portion again: the protocol version is 2; firmware bytes 0 and 1 and the aux
  bytes come from the parsed revision when the parser returned 0 and keep their values
  otherwise; id, revision, additional device support, manufacturer id and product id come
  from the config file when it was opened and parsed and keep their values otherwise; a
  non-zero aux of the file replaces the aux bytes. (3) Once the flag is set, no later
  invocation, whatever its version source, config file and BMC state, changes a static
  field: the flag stays set, the static portion stays the same, and every response is
  that static portion up to bit 7 of firmware byte 0.
\<close>

theorem static_fields_cached_after_config_read:
  "(dev_id_initialized (snd (snd (ipmi_app_get_device_id sg env st)))
      \<longleftrightarrow> dev_id_initialized st \<or> (\<exists>data. config_file env = Parsed data))
   \<and> (\<not> dev_id_initialized st \<longrightarrow>
        (let (r, rv) = try_convert (version_info env);
             d = dev_id st;
             from_file = (\<lambda>f old. case config_file env of Parsed data \<Rightarrow> f data | _ \<Rightarrow> old);
             from_rev = (\<lambda>new old. if 0 \<le> r then new else old)
         in static_part (dev_id (snd (snd (ipmi_app_get_device_id sg env st)))) =
            \<lparr>id_f = from_file (\<lambda>data. ucast (j_id data)) (id_f d),
             revision = from_file (\<lambda>data. ucast (j_revision data)) (revision d),
             fw_0 = from_rev (major rv) (fw_0 d) AND 0x7F,
             fw_1 = from_rev (minor_to_fw1 sg (minor rv)) (fw_1 d),
             ipmi_ver = 2,
             addn_dev_support = from_file (\<lambda>data. ucast (j_addn_dev_support data)) (addn_dev_support d),
             manuf_id_0 = from_file (\<lambda>data. ucast (j_manuf_id data)) (manuf_id_0 d),
             manuf_id_1 = from_file (\<lambda>data. ucast (signed_drop_bit 8 (j_manuf_id data))) (manuf_id_1 d),
             manuf_id_2 = from_file (\<lambda>data. ucast (signed_drop_bit 16 (j_manuf_id data))) (manuf_id_2 d),
             prod_id_0 = from_file (\<lambda>data. ucast (j_prod_id data)) (prod_id_0 d),
             prod_id_1 = from_file (\<lambda>data. ucast (signed_drop_bit 8 (j_prod_id data))) (prod_id_1 d),
             aux_0 = from_file (\<lambda>data. if j_aux data \<noteq> 0 then ucast (drop_bit 24 (j_aux data))
                                         else from_rev (aux rv ! 0) (aux_0 d))
                               (from_rev (aux rv ! 0) (aux_0 d)),
             aux_1 = from_file (\<lambda>data. if j_aux data \<noteq> 0 then ucast (drop_bit 16 (j_aux data))
                                         else from_rev (aux rv ! 1) (aux_1 d))
                               (from_rev (aux rv ! 1) (aux_1 d)),
             aux_2 = from_file (\<lambda>data. if j_aux data \<noteq> 0 then ucast (drop_bit 8 (j_aux data))
                                         else from_rev (aux rv ! 2) (aux_2 d))
                               (from_rev (aux rv ! 2) (aux_2 d)),
             aux_3 = from_file (\<lambda>data. if j_aux data \<noteq> 0 then ucast (j_aux data)
                                         else from_rev (aux rv ! 3) (aux_3 d))
                               (from_rev (aux rv ! 3) (aux_3 d))\<rparr>))
   \<and> (dev_id_initialized st \<longrightarrow>
        (case run_device_id sg envs st of
           (resps, st') \<Rightarrow>
             dev_id_initialized st' \<and> static_part (dev_id st') = static_part (dev_id st)
             \<and> (\<forall>resp \<in> set resps.
                   resp[2 := resp ! 2 AND 0x7F] = dev_id_bytes (static_part (dev_id st)))))"
  using handler_initialized_iff [of sg env st] handler_uninitialized_statics [of st env sg]
    run_initialized [of st sg envs]
  by (intro conjI impI) assumption+

lemma device_id_run_after_init:
  "run_device_id False
     [\<lparr>version_info = Some ''v0.6-19-gf363f61-dirty'', config_file = NotOpen, bmc_ready = False\<rparr>,
      \<lparr>version_info = None,
       config_file = Parsed \<lparr>j_id = 0x21, j_revision = 0, j_addn_dev_support = 0,
                              j_manuf_id = 0, j_prod_id = 0, j_aux = 0x01020304\<rparr>,
       bmc_ready = True\<rparr>]
     \<lparr>dev_id = \<lparr>id_f = 0x20, revision = 0x81, fw_0 = 0x00, fw_1 = 0x06, ipmi_ver = 2,
        addn_dev_support = 0x8D, manuf_id_0 = 0x69, manuf_id_1 = 0xC2, manuf_id_2 = 0x00,
        prod_id_0 = 0x55, prod_id_1 = 0x44, aux_0 = 0xf3, aux_1 = 0x63, aux_2 = 0xf6, aux_3 = 0x01\<rparr>,
       dev_id_initialized = True\<rparr>
   = ([[0x20, 0x81, 0x80, 0x06, 2, 0x8D, 0x69, 0xC2, 0x00, 0x55, 0x44, 0xf3, 0x63, 0xf6, 0x01],
       [0x20, 0x81, 0x00, 0x06, 2, 0x8D, 0x69, 0xC2, 0x00, 0x55, 0x44, 0xf3, 0x63, 0xf6, 0x01]],
      \<lparr>dev_id = \<lparr>id_f = 0x20, revision = 0x81, fw_0 = 0x00, fw_1 = 0x06, ipmi_ver = 2,
        addn_dev_support = 0x8D, manuf_id_0 = 0x69, manuf_id_1 = 0xC2, manuf_id_2 = 0x00,
        prod_id_0 = 0x55, prod_id_1 = 0x44, aux_0 = 0xf3, aux_1 = 0x63, aux_2 = 0xf6, aux_3 = 0x01\<rparr>,
       dev_id_initialized = True\<rparr>)"
  by (simp add: device_id_eval)

lemma device_id_complete_build:
  "ipmi_app_get_device_id False
     \<lparr>version_info = Some ''v0.6-19-gf363f61-dirty'',
       config_file = Parsed \<lparr>j_id = 0x20, j_revision = 0x81, j_addn_dev_support = 0x8D,
                              j_manuf_id = 0xC269, j_prod_id = 0x4455, j_aux = 0\<rparr>,
       bmc_ready = True\<rparr>
     dev_state_init
   = (IPMI_CC_OK,
      [0x20, 0x81, 0x00, 0x06, 2, 0x8D, 0x69, 0xC2, 0x00, 0x55, 0x44, 0xf3, 0x63, 0xf6, 0x01],
      \<lparr>dev_id = \<lparr>id_f = 0x20, revision = 0x81, fw_0 = 0x00, fw_1 = 0x06, ipmi_ver = 2,
        addn_dev_support = 0x8D, manuf_id_0 = 0x69, manuf_id_1 = 0xC2, manuf_id_2 = 0x00,
        prod_id_0 = 0x55, prod_id_1 = 0x44, aux_0 = 0xf3, aux_1 = 0x63, aux_2 = 0xf6, aux_3 = 0x01\<rparr>,
       dev_id_initialized = True\<rparr>)"
  by (simp add: device_id_eval convert_version_v0_6)

theorem static_fields_cached_witness:
  "\<not> dev_id_initialized dev_state_init
   \<and> ipmi_app_get_device_id False
     \<lparr>version_info = Some ''v0.6-19-gf363f61-dirty'',
       config_file = Parsed \<lparr>j_id = 0x20, j_revision = 0x81, j_addn_dev_support = 0x8D,
                              j_manuf_id = 0xC269, j_prod_id = 0x4455, j_aux = 0\<rparr>,
       bmc_ready = True\<rparr>
     dev_state_init
   = (IPMI_CC_OK,
      [0x20, 0x81, 0x00, 0x06, 2, 0x8D, 0x69, 0xC2, 0x00, 0x55, 0x44, 0xf3, 0x63, 0xf6, 0x01],
      \<lparr>dev_id = \<lparr>id_f = 0x20, revision = 0x81, fw_0 = 0x00, fw_1 = 0x06, ipmi_ver = 2,
        addn_dev_support = 0x8D, manuf_id_0 = 0x69, manuf_id_1 = 0xC2, manuf_id_2 = 0x00,
        prod_id_0 = 0x55, prod_id_1 = 0x44, aux_0 = 0xf3, aux_1 = 0x63, aux_2 = 0xf6, aux_3 = 0x01\<rparr>,
       dev_id_initialized = True\<rparr>)
   \<and> dev_id_initialized
       \<lparr>dev_id = \<lparr>id_f = 0x20, revision = 0x81, fw_0 = 0x00, fw_1 = 0x06, ipmi_ver = 2,
        addn_dev_support = 0x8D, manuf_id_0 = 0x69, manuf_id_1 = 0xC2, manuf_id_2 = 0x00,
        prod_id_0 = 0x55, prod_id_1 = 0x44, aux_0 = 0xf3, aux_1 = 0x63, aux_2 = 0xf6, aux_3 = 0x01\<rparr>,
       dev_id_initialized = True\<rparr>
   \<and> run_device_id False
     [\<lparr>version_info = Some ''v0.6-19-gf363f61-dirty'', config_file = NotOpen, bmc_ready = False\<rparr>,
      \<lparr>version_info = None,
       config_file = Parsed \<lparr>j_id = 0x21, j_revision = 0, j_addn_dev_support = 0,
                              j_manuf_id = 0, j_prod_id = 0, j_aux = 0x01020304\<rparr>,
       bmc_ready = True\<rparr>]
     \<lparr>dev_id = \<lparr>id_f = 0x20, revision = 0x81, fw_0 = 0x00, fw_1 = 0x06, ipmi_ver = 2,
        addn_dev_support = 0x8D, manuf_id_0 = 0x69, manuf_id_1 = 0xC2, manuf_id_2 = 0x00,
        prod_id_0 = 0x55, prod_id_1 = 0x44, aux_0 = 0xf3, aux_1 = 0x63, aux_2 = 0xf6, aux_3 = 0x01\<rparr>,
       dev_id_initialized = True\<rparr>
   = ([[0x20, 0x81, 0x80, 0x06, 2, 0x8D, 0x69, 0xC2, 0x00, 0x55, 0x44, 0xf3, 0x63, 0xf6, 0x01],
       [0x20, 0x81, 0x00, 0x06, 2, 0x8D, 0x69, 0xC2, 0x00, 0x55, 0x44, 0xf3, 0x63, 0xf6, 0x01]],
      \<lparr>dev_id = \<lparr>id_f = 0x20, revision = 0x81, fw_0 = 0x00, fw_1 = 0x06, ipmi_ver = 2,
        addn_dev_support = 0x8D, manuf_id_0 = 0x69, manuf_id_1 = 0xC2, manuf_id_2 = 0x00,
        prod_id_0 = 0x55, prod_id_1 = 0x44, aux_0 = 0xf3, aux_1 = 0x63, aux_2 = 0xf6, aux_3 = 0x01\<rparr>,
       dev_id_initialized = True\<rparr>)"
  using static_fields_cached_after_config_read
      [of False "\<lparr>version_info = Some ''v0.6-19-gf363f61-dirty'',
       config_file = Parsed \<lparr>j_id = 0x20, j_revision = 0x81, j_addn_dev_support = 0x8D,
                              j_manuf_id = 0xC269, j_prod_id = 0x4455, j_aux = 0\<rparr>,
       bmc_ready = True\<rparr>" dev_state_init "[]"]
    static_fields_cached_after_config_read
      [of False "\<lparr>version_info = None,
       config_file = Parsed \<lparr>j_id = 0x21, j_revision = 0, j_addn_dev_support = 0,
                              j_manuf_id = 0, j_prod_id = 0, j_aux = 0x01020304\<rparr>,
       bmc_ready = True\<rparr>"
        "\<lparr>dev_id = \<lparr>id_f = 0x20, revision = 0x81, fw_0 = 0x00, fw_1 = 0x06, ipmi_ver = 2,
        addn_dev_support = 0x8D, manuf_id_0 = 0x69, manuf_id_1 = 0xC2, manuf_id_2 = 0x00,
        prod_id_0 = 0x55, prod_id_1 = 0x44, aux_0 = 0xf3, aux_1 = 0x63, aux_2 = 0xf6, aux_3 = 0x01\<rparr>,
       dev_id_initialized = True\<rparr>"
        "[\<lparr>version_info = Some ''v0.6-19-gf363f61-dirty'', config_file = NotOpen, bmc_ready = False\<rparr>,
      \<lparr>version_info = None,
       config_file = Parsed \<lparr>j_id = 0x21, j_revision = 0, j_addn_dev_support = 0,
                              j_manuf_id = 0, j_prod_id = 0, j_aux = 0x01020304\<rparr>,
       bmc_ready = True\<rparr>]"]
    device_id_complete_build device_id_run_after_init
  by (simp add: dev_state_init_def)

text \<open>
  C1, as stated, fails: the first invocation finds neither a version nor the config file
  and answers with zeros (and the protocol version), the flag stays unset, and the second
  invocation computes every static field anew.
\<close>

theorem static_fields_recomputed_counterexample:
  "run_device_id False
     [\<lparr>version_info = None, config_file = NotOpen, bmc_ready = True\<rparr>,
      \<lparr>version_info = Some ''v0.6-19-gf363f61-dirty'',
       config_file = Parsed \<lparr>j_id = 0x20, j_revision = 0x81, j_addn_dev_support = 0x8D,
                              j_manuf_id = 0xC269, j_prod_id = 0x4455, j_aux = 0\<rparr>,
       bmc_ready = True\<rparr>]
     dev_state_init
   = ([[0, 0, 0, 0, 2, 0, 0, 0, 0, 0, 0, 0, 0, 0, 0],
       [0x20, 0x81, 0x00, 0x06, 2, 0x8D, 0x69, 0xC2, 0x00, 0x55, 0x44, 0xf3, 0x63, 0xf6, 0x01]],
      \<lparr>dev_id = \<lparr>id_f = 0x20, revision = 0x81, fw_0 = 0x00, fw_1 = 0x06, ipmi_ver = 2,
        addn_dev_support = 0x8D, manuf_id_0 = 0x69, manuf_id_1 = 0xC2, manuf_id_2 = 0x00,
        prod_id_0 = 0x55, prod_id_1 = 0x44, aux_0 = 0xf3, aux_1 = 0x63, aux_2 = 0xf6, aux_3 = 0x01\<rparr>, dev_id_initialized = True\<rparr>)
   \<and> \<not> dev_id_initialized (snd (snd (ipmi_app_get_device_id False
           \<lparr>version_info = None, config_file = NotOpen, bmc_ready = True\<rparr> dev_state_init)))"
  by (simp add: device_id_eval convert_version_v0_6)

subsection \<open>The outcomes of the version parser\<close>

lemma stoi_exn: "stoi s b = Inl e \<Longrightarrow> e = invalid_argument \<or> e = out_of_range"
  by (auto simp: stoi_def Let_def split: option.splits prod.splits if_splits)

lemma length_htobe32_bytes [simp]: "length (htobe32_bytes x) = 4"
  by (simp add: htobe32_bytes_def)

lemma parse_major_cases:
  "(\<exists>e. parse_major tokens rv = Inl (e, rv) \<and> (e = invalid_argument \<or> e = out_of_range))
   \<or> (\<exists>rv'. parse_major tokens rv = Inr rv' \<and> aux rv' = aux rv)"
  by (auto simp: parse_major_def split: sum.splits dest: stoi_exn)

lemma parse_release_cases:
  "length (aux rv) = 4 \<Longrightarrow>
   (\<exists>e. parse_release mt rv = Inl (e, rv) \<and> (e = invalid_argument \<or> e = out_of_range))
   \<or> (\<exists>rv' h. parse_release mt rv = Inr (rv', h) \<and> length (aux rv') = 4)"
  by (auto simp: parse_release_def Let_def split: sum.splits dest: stoi_exn)

lemma parse_patch_cases:
  "length (aux rv) = 4 \<Longrightarrow>
   (\<exists>e. parse_patch mt rv = Inl (e, rv) \<and> (e = invalid_argument \<or> e = out_of_range))
   \<or> (\<exists>rv'. parse_patch mt rv = Inr rv' \<and> length (aux rv') = 4)"
  by (auto simp: parse_patch_def Let_def split: sum.splits dest: stoi_exn)

lemma parse_minor_cases:
  assumes "length (aux rv) = 4"
  shows "(\<exists>e rv'. parse_minor tokens rv = Inl (e, rv') \<and> (e = invalid_argument \<or> e = out_of_range))
   \<or> (\<exists>rv' h. parse_minor tokens rv = Inr (rv', h) \<and> length (aux rv') = 4)"
proof (cases "length tokens > 1")
  case False
  then show ?thesis using assms by (auto simp: parse_minor_def)
next
  case True
  show ?thesis
  proof (cases "stoi (tokens ! 1) 16")
    case (Inl e)
    then show ?thesis using True by (auto simp: parse_minor_def dest: stoi_exn)
  next
    case (Inr v)
    let ?rv1 = "rv\<lparr>minor := word_of_int v\<rparr>"
    let ?mt = "tokenize (tokens ! 1) ''rp''"
    have l1: "length (aux ?rv1) = 4" using assms by simp
    from parse_release_cases [OF l1, of ?mt] show ?thesis
    proof
      assume "\<exists>e. parse_release ?mt ?rv1 = Inl (e, ?rv1) \<and> (e = invalid_argument \<or> e = out_of_range)"
      then show ?thesis using True Inr by (auto simp: parse_minor_def Let_def)
    next
      assume "\<exists>rv' h. parse_release ?mt ?rv1 = Inr (rv', h) \<and> length (aux rv') = 4"
      then obtain rv2 h where r: "parse_release ?mt ?rv1 = Inr (rv2, h)" and l2: "length (aux rv2) = 4"
        by blast
      from parse_patch_cases [OF l2, of ?mt] show ?thesis
        using True Inr r by (auto simp: parse_minor_def Let_def)
    qed
  qed
qed

lemma parse_hash_cases:
  "length (aux rv) = 4 \<Longrightarrow>
   (\<exists>e. parse_hash tokens h rv = Inl (e, rv) \<and> (e = invalid_argument \<or> e = out_of_range))
   \<or> (\<exists>rv'. parse_hash tokens h rv = Inr rv' \<and> length (aux rv') = 4)"
  by (auto simp: parse_hash_def Let_def split: sum.splits dest: stoi_exn)

lemma convert_version_empty:
  "cut_v (c_str p) = [] \<Longrightarrow> convert_version p = Inr (- 1, rev_zero)"
  by (simp add: convert_version_def)

lemma convert_version_nonempty:
  assumes "cut_v (c_str p) \<noteq> []"
  shows "(\<exists>rv. convert_version p = Inr (0, rv) \<and> length (aux rv) = 4)
     \<or> (\<exists>e rv. convert_version p = Inl (e, rv) \<and> (e = invalid_argument \<or> e = out_of_range))"
proof -
  let ?tokens = "tokenize (cut_v (c_str p)) ''.-''"
  from parse_major_cases [of ?tokens rev_zero] show ?thesis
  proof
    assume "\<exists>e. parse_major ?tokens rev_zero = Inl (e, rev_zero) \<and> (e = invalid_argument \<or> e = out_of_range)"
    then show ?thesis using assms by (auto simp: convert_version_def Let_def)
  next
    assume "\<exists>rv'. parse_major ?tokens rev_zero = Inr rv' \<and> aux rv' = aux rev_zero"
    then obtain rv1 where m: "parse_major ?tokens rev_zero = Inr rv1" and l1: "length (aux rv1) = 4"
      by (auto simp: rev_zero_def)
    from parse_minor_cases [OF l1, of ?tokens] show ?thesis
    proof
      assume "\<exists>e rv'. parse_minor ?tokens rv1 = Inl (e, rv') \<and> (e = invalid_argument \<or> e = out_of_range)"
      then show ?thesis using assms m by (auto simp: convert_version_def Let_def)
    next
      assume "\<exists>rv' h. parse_minor ?tokens rv1 = Inr (rv', h) \<and> length (aux rv') = 4"
      then obtain rv2 h where n: "parse_minor ?tokens rv1 = Inr (rv2, h)" and l2: "length (aux rv2) = 4"
        by blast
      from parse_hash_cases [OF l2, of ?tokens h] show ?thesis
        using assms m n by (auto simp: convert_version_def Let_def)
    qed
  qed
qed

text \<open>
  C2, as the code has it. When nothing is left behind the optional \<^verbatim>\<open>v\<close> the parser
  returns -1 with the cleared revision. Otherwise it either returns 0 with a revision of
  major, minor and four aux bytes, or a numeric conversion throws
  \<^verbatim>\<open>std::invalid_argument\<close> or \<^verbatim>\<open>std::out_of_range\<close> across its boundary. The
  \<^verbatim>\<open>try\<close> block of the Device ID handler turns all of this into \<open>r = 0\<close> or
  \<open>r = -1\<close>, with \<open>r = 0\<close> exactly when the parser returned 0.
\<close>

theorem convert_version_outcomes:
  "(cut_v (c_str p) = [] \<longrightarrow> convert_version p = Inr (- 1, rev_zero))
   \<and> (cut_v (c_str p) \<noteq> [] \<longrightarrow>
        (\<exists>rv. convert_version p = Inr (0, rv) \<and> length (aux rv) = 4)
        \<or> (\<exists>e rv. convert_version p = Inl (e, rv) \<and> (e = invalid_argument \<or> e = out_of_range)))
   \<and> (fst (try_convert (Some p)) = 0 \<or> fst (try_convert (Some p)) = - 1)
   \<and> (fst (try_convert (Some p)) = 0 \<longleftrightarrow> (\<exists>rv. convert_version p = Inr (0, rv)))"
proof (cases "cut_v (c_str p) = []")
  case True
  then show ?thesis by (simp add: convert_version_empty try_convert_def)
next
  case False
  from convert_version_nonempty [OF False] show ?thesis
    using False by (auto simp: try_convert_def)
qed

theorem convert_version_outcomes_witness:
  "cut_v (c_str '''') = [] \<and> convert_version '''' = Inr (- 1, rev_zero)
   \<and> cut_v (c_str ''v0.6-19-gf363f61-dirty'') \<noteq> []
   \<and> convert_version ''v0.6-19-gf363f61-dirty''
       = Inr (0, \<lparr>major = 0x00, minor = 0x06, aux = [0xf3, 0x63, 0xf6, 0x01]\<rparr>)
   \<and> fst (try_convert (Some ''v0.6-19-gf363f61-dirty'')) = 0
   \<and> fst (try_convert (Some '''')) = - 1"
  using convert_version_outcomes [of "''''"] convert_version_outcomes [of "''v0.6-19-gf363f61-dirty''"]
    convert_version_v0_6
  by (simp add: cut_v_def c_str_def try_convert_def)

text \<open>
  C2, as stated, fails: on \<^verbatim>\<open>v1.x\<close> the conversion of the minor token throws out of
  the parser, after the major byte has been written into the caller's revision.
\<close>

theorem convert_version_throws_counterexample:
  "convert_version ''v1.x''
     = Inl (invalid_argument, \<lparr>major = 0x01, minor = 0, aux = [0, 0, 0, 0]\<rparr>)
   \<and> \<lparr>major = 0x01, minor = 0, aux = [0, 0, 0, 0]\<rparr> \<noteq> rev_zero"
  using convert_version_v1_x by (simp add: rev_zero_def)

subsection \<open>Hex digit pairs\<close>

lemma hex_digit_plain:
  assumes "is_digit 16 c"
  shows "\<not> isspace c" "c \<noteq> CHR ''-''" "c \<noteq> CHR ''+''" "c \<noteq> CHR 0x00"
    and "\<exists>d. digit_val c = Some d \<and> d < 16"
  using assms
  by (auto simp: is_digit_def isspace_def digit_val_def Let_def split: option.splits if_splits)

lemma scan_hex_pair:
  assumes "is_digit 16 a" "is_digit 16 b"
  shows "scan_number [a, b] 16 = Some (False, 16 * the (digit_val a) + the (digit_val b))"
  using assms hex_digit_plain [OF assms(1)] hex_digit_plain [OF assms(2)]
  by (auto simp: scan_number_def Let_def)


lemma hex_pair_bound:
  assumes "is_digit 16 a" "is_digit 16 b"
  shows "16 * the (digit_val a) + the (digit_val b) < 256"
  using hex_digit_plain(5) [OF assms(1)] hex_digit_plain(5) [OF assms(2)] by auto

lemma stoi_hex_pair:
  assumes "is_digit 16 a" "is_digit 16 b"
  shows "stoi [a, b] 16 = Inr (int (16 * the (digit_val a) + the (digit_val b)))"
  using hex_pair_bound [OF assms] by (simp add: stoi_def scan_hex_pair [OF assms])


lemma strtoul_hex_pair:
  assumes "is_digit 16 a" "is_digit 16 b"
  shows "strtoul_byte [a, b] = word_of_nat (16 * the (digit_val a) + the (digit_val b))"
  by (simp add: strtoul_byte_def scan_hex_pair [OF assms])

lemma update_last_free:
  "(replicate (Suc m) None @ xs)[m := Some b] = replicate m None @ Some b # xs"
  by (induction m) simp_all

lemma hex_pairs_append:
  "even (length s) \<Longrightarrow> hex_pairs (s @ t) = hex_pairs s @ hex_pairs t"
  by (induction s rule: hex_pairs.induct) simp_all

lemma length_hex_pairs: "length (hex_pairs s) = length s div 2"
  by (induction s rule: hex_pairs.induct) simp_all

lemma hex_pairs_nth:
  "2 * k + 1 < length s \<Longrightarrow>
   hex_pairs s ! k = word_of_nat (16 * the (digit_val (s ! (2 * k))) + the (digit_val (s ! (2 * k + 1))))"
proof (induction s arbitrary: k rule: hex_pairs.induct)
  case (1 a b cs)
  then show ?case by (cases k) simp_all
qed simp_all


lemma copy_octet_hex:
  assumes "n \<le> m" "m \<le> 16" "2 * n \<le> length s" "\<forall>c \<in> set (take (2 * n) s). is_digit 16 c"
  shows "copy_octet n s (int m - 1) (replicate m None @ xs)
       = Inr (int (m - n) - 1,
              replicate (m - n) None @ map Some (rev (hex_pairs (take (2 * n) s))) @ xs)"
  using assms
proof (induction n arbitrary: s m xs)
  case 0
  then show ?case by simp
next
  case (Suc n)
  from Suc.prems obtain a b s' where s: "s = a # b # s'"
    by (cases s; cases "tl s") auto
  from Suc.prems obtain m' where m: "m = Suc m'" by (cases m) auto
  have ab: "is_digit 16 a" "is_digit 16 b" using Suc.prems s by auto
  have ih: "copy_octet n s' (int m' - 1) (replicate m' None @ (Some (strtoul_byte [a, b]) # xs))
       = Inr (int (m' - n) - 1,
              replicate (m' - n) None @ map Some (rev (hex_pairs (take (2 * n) s')))
                @ (Some (strtoul_byte [a, b]) # xs))"
    using Suc.prems s m by (intro Suc.IH) auto
  have step: "copy_octet (Suc n) s (int m - 1) (replicate m None @ xs)
      = copy_octet n s' (int m' - 1) ((replicate (Suc m') None @ xs)[m' := Some (strtoul_byte [a, b])])"
    using Suc.prems by (simp add: s m del: replicate_Suc replicate.simps)
  have hp: "hex_pairs (take (2 * Suc n) s) = strtoul_byte [a, b] # hex_pairs (take (2 * n) s')"
    by (simp add: s strtoul_hex_pair [OF ab])
  have mn: "m - Suc n = m' - n" by (simp add: m)
  show ?case
    unfolding step update_last_free ih hp mn by simp
qed


lemma copy_octets_hex:
  assumes "sum_list (map (\<lambda>t. length t div 2) octets) \<le> m" "m \<le> 16"
    and "\<forall>t \<in> set octets. even (length t) \<and> (\<forall>c \<in> set t. is_digit 16 c)"
  shows "copy_octets octets (int m - 1) (replicate m None @ xs)
       = Inr (int (m - sum_list (map (\<lambda>t. length t div 2) octets)) - 1,
              replicate (m - sum_list (map (\<lambda>t. length t div 2) octets)) None
                @ map Some (rev (hex_pairs (concat octets))) @ xs)"
  using assms
proof (induction octets arbitrary: m xs)
  case Nil
  then show ?case by simp
next
  case (Cons t octets)
  let ?n = "length t div 2"
  let ?r = "sum_list (map (\<lambda>t. length t div 2) octets)"
  have ev: "even (length t)" and hx: "\<forall>c \<in> set t. is_digit 16 c"
    using Cons.prems by auto
  have tk: "take (2 * ?n) t = t" using ev by simp
  have n: "?n \<le> m" "2 * ?n \<le> length t" using Cons.prems by auto
  have c: "copy_octet ?n t (int m - 1) (replicate m None @ xs)
       = Inr (int (m - ?n) - 1, replicate (m - ?n) None @ map Some (rev (hex_pairs t)) @ xs)"
    using copy_octet_hex [OF n(1) Cons.prems(2) n(2), of xs] hx by (simp add: tk)
  have ih: "copy_octets octets (int (m - ?n) - 1)
              (replicate (m - ?n) None @ (map Some (rev (hex_pairs t)) @ xs))
       = Inr (int (m - ?n - ?r) - 1,
              replicate (m - ?n - ?r) None @ map Some (rev (hex_pairs (concat octets)))
                @ (map Some (rev (hex_pairs t)) @ xs))"
    using Cons.prems by (intro Cons.IH) auto
  have hp: "hex_pairs (concat (t # octets)) = hex_pairs t @ hex_pairs (concat octets)"
    using ev by (simp add: hex_pairs_append)
  have e: "m - (?n + ?r) = m - ?n - ?r" by simp
  show ?case
    unfolding copy_octets.simps c sum.case prod.case ih hp list.map sum_list.Cons e by simp
qed

text \<open>The tokens of \<^verbatim>\<open>strtok_r\<close>.\<close>

lemma strtok_r_group:
  assumes "t \<noteq> []" "\<forall>c \<in> set t. c \<noteq> d"
  shows "strtok_r (t @ d # rest) [d] = t # strtok_r rest [d]"
proof -
  from assms obtain a t' where t: "t = a # t'" by (cases t) auto
  have a: "a \<noteq> d" using assms t by simp
  have tw: "takeWhile (\<lambda>c. c \<notin> set [d]) (t @ d # rest) = t"
    using assms(2) by (simp add: takeWhile_append2 [of t] )
  have dw: "dropWhile (\<lambda>c. c \<notin> set [d]) (t @ d # rest) = d # rest"
    using assms(2) by (simp add: dropWhile_append2 [of t])
  have d0: "dropWhile (\<lambda>c. c \<in> set [d]) (t @ d # rest) = t @ d # rest"
    using a by (simp add: t)
  have "strtok_r (t @ d # rest) [d]
      = (if t @ d # rest = [] then [] else t # strtok_r (drop 1 (d # rest)) [d])"
    by (subst strtok_r.simps) (simp only: Let_def d0 tw dw)
  then show ?thesis using assms(1) by simp
qed

lemma strtok_r_last:
  assumes "t \<noteq> []" "\<forall>c \<in> set t. c \<noteq> d"
  shows "strtok_r t [d] = [t]"
proof -
  from assms obtain a t' where t: "t = a # t'" by (cases t) auto
  have a: "a \<noteq> d" using assms t by simp
  have tw: "takeWhile (\<lambda>c. c \<notin> set [d]) t = t"
    using assms(2) by simp
  have dw: "dropWhile (\<lambda>c. c \<notin> set [d]) t = []"
    using assms(2) by simp
  have d0: "dropWhile (\<lambda>c. c \<in> set [d]) t = t"
    using a by (simp add: t)
  have e: "strtok_r [] [d] = []" by (subst strtok_r.simps) simp
  have "strtok_r t [d] = (if t = [] then [] else t # strtok_r (drop 1 []) [d])"
    by (subst strtok_r.simps) (simp only: Let_def d0 tw dw)
  then show ?thesis using assms(1) e by simp
qed








text \<open>The copy loop of the System GUID handler.\<close>

lemma size_t_small:
  assumes "m \<le> 16"
  shows "unat (word_of_nat m :: 32 word) = m"
proof -
  have "m < 2 ^ LENGTH(32)" using assms by simp
  then show ?thesis by (rule of_nat_inverse [OF refl])
qed

lemma size_t_index:
  "m \<le> 16 \<Longrightarrow> unat (of_nat (Suc m) - 1 :: 32 word) = m"
  "of_nat (Suc m) - 1 - 1 = (of_nat m - 1 :: 32 word)"
  using size_t_small [of m] by simp_all

lemma sys_guid_loop_step:
  assumes "i < length guidProp" "stoi (take 2 (drop i guidProp)) 16 = Inr v" "m \<le> 15"
  shows "sys_guid_loop guidProp i (of_nat (Suc m) - 1) (replicate (Suc m) None @ xs)
       = sys_guid_loop guidProp (i + 2) (of_nat m - 1) (replicate m None @ Some (word_of_int v) # xs)"
proof -
  have "m \<le> 16" using assms(3) by simp
  then have u: "unat (of_nat (Suc m) - 1 :: 32 word) = m" by (rule size_t_index)
  show ?thesis
    apply (subst sys_guid_loop.simps)
    unfolding u size_t_index(2) update_last_free
    using assms by (simp add: bmc_guid_len_def)
qed

lemma sys_guid_loop_hex:
  assumes "n \<le> m" "m \<le> 16" "i + 2 * n \<le> length g"
    and "\<forall>c \<in> set (take (2 * n) (drop i g)). is_digit 16 c"
  shows "sys_guid_loop g i (of_nat m - 1) (replicate m None @ xs)
       = sys_guid_loop g (i + 2 * n) (of_nat (m - n) - 1)
           (replicate (m - n) None @ map Some (rev (hex_pairs (take (2 * n) (drop i g)))) @ xs)"
  using assms
proof (induction n arbitrary: i m xs)
  case 0
  then show ?case by simp
next
  case (Suc n)
  from Suc.prems obtain m' where m: "m = Suc m'" by (cases m) auto
  have il: "i < length g" "Suc i < length g" using Suc.prems by auto
  define a where "a = g ! i"
  define b where "b = g ! Suc i"
  have d: "drop i g = a # b # drop (i + 2) g"
    using il by (simp add: a_def b_def Cons_nth_drop_Suc)
  have ab: "is_digit 16 a" "is_digit 16 b" using Suc.prems(4) by (simp_all add: d)
  have st: "stoi (take 2 (drop i g)) 16 = Inr (int (16 * the (digit_val a) + the (digit_val b)))"
    by (simp add: d stoi_hex_pair [OF ab])
  have m': "m' \<le> 15" using Suc.prems m by simp
  have step: "sys_guid_loop g i (of_nat m - 1) (replicate m None @ xs)
       = sys_guid_loop g (i + 2) (of_nat m' - 1)
           (replicate m' None @ Some (word_of_nat (16 * the (digit_val a) + the (digit_val b))) # xs)"
    unfolding m using sys_guid_loop_step [OF il(1) st m', of xs] by simp
  have ih: "sys_guid_loop g (i + 2) (of_nat m' - 1)
           (replicate m' None @ Some (word_of_nat (16 * the (digit_val a) + the (digit_val b))) # xs)
       = sys_guid_loop g (i + 2 + 2 * n) (of_nat (m' - n) - 1)
           (replicate (m' - n) None @ map Some (rev (hex_pairs (take (2 * n) (drop (i + 2) g))))
              @ Some (word_of_nat (16 * the (digit_val a) + the (digit_val b))) # xs)"
    using Suc.prems m by (intro Suc.IH) (auto simp: d)
  have hp: "hex_pairs (take (2 * Suc n) (drop i g))
      = word_of_nat (16 * the (digit_val a) + the (digit_val b)) # hex_pairs (take (2 * n) (drop (i + 2) g))"
    by (simp add: d)
  have e: "i + 2 * Suc n = i + 2 + 2 * n" "m - Suc n = m' - n" by (simp_all add: m)
  show ?case unfolding step ih hp e by simp
qed


text \<open>The System GUID handler on hex input of 32 and of 33 characters.\<close>

lemma sys_guid_hex_32:
  assumes "length g = 32" "\<forall>c \<in> set g. is_digit 16 c"
  shows "sys_guid_loop g 0 (of_nat 16 - 1) (replicate 16 None) = Response (map Some (rev (hex_pairs g)))"
proof -
  have "sys_guid_loop g 0 (of_nat 16 - 1) (replicate 16 None @ [])
      = sys_guid_loop g (0 + 2 * 16) (of_nat (16 - 16) - 1)
          (replicate (16 - 16) None @ map Some (rev (hex_pairs (take (2 * 16) (drop 0 g)))) @ [])"
    using assms by (intro sys_guid_loop_hex) auto
  also have "\<dots> = Response (map Some (rev (hex_pairs g)))"
    using assms(1) by (subst sys_guid_loop.simps) simp
  finally show ?thesis by simp
qed


lemma sys_guid_start:
  "ipmi_app_get_sys_guid prop =
     (let g = filter (\<lambda>c. c \<noteq> CHR ''-'') prop in
      if length g = 32 \<or> length g = 33
      then sys_guid_loop g 0 (of_nat 16 - 1) (replicate 16 None)
      else Error IPMI_CC_RESPONSE_ERROR)"
proof -
  have "n div 2 = 16 \<longleftrightarrow> n = 32 \<or> n = 33" for n :: nat by presburger
  then show ?thesis
    by (auto simp: ipmi_app_get_sys_guid_def bmc_guid_len_def Let_def)
qed







subsection \<open>The byte order of the GUID response\<close>

lemma hex_groups:
  assumes "\<forall>c \<in> set (g1 @ g2 @ g3 @ g4 @ g5). is_digit 16 c"
  shows "\<forall>c \<in> set g1. is_digit 16 c" "\<forall>c \<in> set g2. is_digit 16 c"
    "\<forall>c \<in> set g3. is_digit 16 c" "\<forall>c \<in> set g4. is_digit 16 c" "\<forall>c \<in> set g5. is_digit 16 c"
  using assms by auto

lemma hex_no_hyphen_no_nul:
  assumes "\<forall>c \<in> set g. is_digit 16 c"
  shows "\<forall>c \<in> set g. c \<noteq> CHR ''-''" "\<forall>c \<in> set g. c \<noteq> CHR 0x00"
  using assms hex_digit_plain(2,4) by blast+

lemma c_str_no_nul:
  assumes "\<forall>c \<in> set u. c \<noteq> CHR 0x00"
  shows "c_str u = u"
  unfolding c_str_def using assms by (simp add: takeWhile_eq_all_conv)

lemma groups_no_nul:
  assumes "\<forall>c \<in> set g1. c \<noteq> CHR 0x00" "\<forall>c \<in> set g2. c \<noteq> CHR 0x00"
    "\<forall>c \<in> set g3. c \<noteq> CHR 0x00" "\<forall>c \<in> set g4. c \<noteq> CHR 0x00" "\<forall>c \<in> set g5. c \<noteq> CHR 0x00"
  shows "\<forall>c \<in> set (g1 @ ''-'' @ g2 @ ''-'' @ g3 @ ''-'' @ g4 @ ''-'' @ g5). c \<noteq> CHR 0x00"
  using assms by (simp add: ball_Un)

lemma strtok_r_five_groups:
  assumes "g1 \<noteq> []" "g2 \<noteq> []" "g3 \<noteq> []" "g4 \<noteq> []" "g5 \<noteq> []"
   and "\<forall>c \<in> set g1. c \<noteq> CHR ''-''" "\<forall>c \<in> set g2. c \<noteq> CHR ''-''"
    "\<forall>c \<in> set g3. c \<noteq> CHR ''-''" "\<forall>c \<in> set g4. c \<noteq> CHR ''-''" "\<forall>c \<in> set g5. c \<noteq> CHR ''-''"
  shows "strtok_r (g1 @ CHR ''-'' # g2 @ CHR ''-'' # g3 @ CHR ''-'' # g4 @ CHR ''-'' # g5) ''-''
           = [g1, g2, g3, g4, g5]"
  by (simp only: strtok_r_group [OF assms(1) assms(6)] strtok_r_group [OF assms(2) assms(7)]
        strtok_r_group [OF assms(3) assms(8)] strtok_r_group [OF assms(4) assms(9)]
        strtok_r_last [OF assms(5) assms(10)])

lemma filter_five_groups:
  assumes "\<forall>c \<in> set g1. c \<noteq> CHR ''-''" "\<forall>c \<in> set g2. c \<noteq> CHR ''-''"
    "\<forall>c \<in> set g3. c \<noteq> CHR ''-''" "\<forall>c \<in> set g4. c \<noteq> CHR ''-''" "\<forall>c \<in> set g5. c \<noteq> CHR ''-''"
  shows "filter (\<lambda>c. c \<noteq> CHR ''-'') (g1 @ ''-'' @ g2 @ ''-'' @ g3 @ ''-'' @ g4 @ ''-'' @ g5)
           = g1 @ g2 @ g3 @ g4 @ g5"
  using assms by (simp add: filter_id_conv)

lemma canonical_guid_tokens:
  assumes "length g1 = 8" "length g2 = 4" "length g3 = 4" "length g4 = 4" "length g5 = 12"
    and "\<forall>c \<in> set (g1 @ g2 @ g3 @ g4 @ g5). is_digit 16 c"
  shows "strtok_r (c_str (g1 @ ''-'' @ g2 @ ''-'' @ g3 @ ''-'' @ g4 @ ''-'' @ g5)) ''-''
           = [g1, g2, g3, g4, g5]"
    and "filter (\<lambda>c. c \<noteq> CHR ''-'') (g1 @ ''-'' @ g2 @ ''-'' @ g3 @ ''-'' @ g4 @ ''-'' @ g5)
           = g1 @ g2 @ g3 @ g4 @ g5"
proof -
  note h = hex_groups [OF assms(6)]
  note nd = hex_no_hyphen_no_nul(1) [OF h(1)] hex_no_hyphen_no_nul(1) [OF h(2)]
    hex_no_hyphen_no_nul(1) [OF h(3)] hex_no_hyphen_no_nul(1) [OF h(4)]
    hex_no_hyphen_no_nul(1) [OF h(5)]
  note nz = hex_no_hyphen_no_nul(2) [OF h(1)] hex_no_hyphen_no_nul(2) [OF h(2)]
    hex_no_hyphen_no_nul(2) [OF h(3)] hex_no_hyphen_no_nul(2) [OF h(4)]
    hex_no_hyphen_no_nul(2) [OF h(5)]
  have ne: "g1 \<noteq> []" "g2 \<noteq> []" "g3 \<noteq> []" "g4 \<noteq> []" "g5 \<noteq> []"
    using assms(1-5) by auto
  have cs: "c_str (g1 @ ''-'' @ g2 @ ''-'' @ g3 @ ''-'' @ g4 @ ''-'' @ g5)
      = g1 @ ''-'' @ g2 @ ''-'' @ g3 @ ''-'' @ g4 @ ''-'' @ g5"
    by (rule c_str_no_nul [OF groups_no_nul [OF nz]])
  have ap: "g1 @ ''-'' @ g2 @ ''-'' @ g3 @ ''-'' @ g4 @ ''-'' @ g5
      = g1 @ CHR ''-'' # g2 @ CHR ''-'' # g3 @ CHR ''-'' # g4 @ CHR ''-'' # g5"
    by simp
  show "strtok_r (c_str (g1 @ ''-'' @ g2 @ ''-'' @ g3 @ ''-'' @ g4 @ ''-'' @ g5)) ''-''
           = [g1, g2, g3, g4, g5]"
    unfolding cs unfolding ap by (rule strtok_r_five_groups [OF ne nd])
  show "filter (\<lambda>c. c \<noteq> CHR ''-'') (g1 @ ''-'' @ g2 @ ''-'' @ g3 @ ''-'' @ g4 @ ''-'' @ g5)
           = g1 @ g2 @ g3 @ g4 @ g5"
    by (rule filter_five_groups [OF nd])
qed

text \<open>
  C7. For every GUID text in the canonical form, five groups of 8, 4, 4, 4 and 12 hex
  digits joined by hyphens, both handlers answer with the 16 bytes that the digit pairs
  denote, in reverse order: for every \<open>k < 16\<close> the \<open>k\<close>-th pair of the text (digits
  \<open>2k\<close> and \<open>2k+1\<close> without the hyphens) is at output index \<open>15 - k\<close>, so the
  first pair is at index 15 and the last at index 0.
\<close>

theorem guid_pairs_back_to_front:
  assumes "length g1 = 8" "length g2 = 4" "length g3 = 4" "length g4 = 4" "length g5 = 12"
    and "\<forall>c \<in> set (g1 @ g2 @ g3 @ g4 @ g5). is_digit 16 c"
  shows "ipmi_app_get_sys_guid (g1 @ ''-'' @ g2 @ ''-'' @ g3 @ ''-'' @ g4 @ ''-'' @ g5)
           = Response (map Some (rev (hex_pairs (g1 @ g2 @ g3 @ g4 @ g5))))
       \<and> ipmi_app_get_device_guid (g1 @ ''-'' @ g2 @ ''-'' @ g3 @ ''-'' @ g4 @ ''-'' @ g5)
           = Response (map Some (rev (hex_pairs (g1 @ g2 @ g3 @ g4 @ g5))))
       \<and> length (hex_pairs (g1 @ g2 @ g3 @ g4 @ g5)) = 16
       \<and> (\<forall>k<16. map Some (rev (hex_pairs (g1 @ g2 @ g3 @ g4 @ g5))) ! (15 - k)
             = Some (word_of_nat (16 * the (digit_val ((g1 @ g2 @ g3 @ g4 @ g5) ! (2 * k)))
                                  + the (digit_val ((g1 @ g2 @ g3 @ g4 @ g5) ! (2 * k + 1))))))"
proof -
  let ?g = "g1 @ g2 @ g3 @ g4 @ g5"
  let ?u = "g1 @ ''-'' @ g2 @ ''-'' @ g3 @ ''-'' @ g4 @ ''-'' @ g5"
  note tk = canonical_guid_tokens [OF assms]
  have lg: "length ?g = 32" using assms(1-5) by simp
  have lp: "length (hex_pairs ?g) = 16" unfolding length_hex_pairs lg by simp
  have sys: "ipmi_app_get_sys_guid ?u = Response (map Some (rev (hex_pairs ?g)))"
    unfolding sys_guid_start Let_def tk(2) using sys_guid_hex_32 [OF lg assms(6)] lg by simp
  have s: "sum_list (map (\<lambda>t. length t div 2) [g1, g2, g3, g4, g5]) = 16"
    using assms(1-5) by simp
  have ev: "\<forall>t \<in> set [g1, g2, g3, g4, g5]. even (length t) \<and> (\<forall>c \<in> set t. is_digit 16 c)"
    using assms by auto
  have "copy_octets [g1, g2, g3, g4, g5] (int 16 - 1) (replicate 16 None @ [])
      = Inr (int (16 - sum_list (map (\<lambda>t. length t div 2) [g1, g2, g3, g4, g5])) - 1,
             replicate (16 - sum_list (map (\<lambda>t. length t div 2) [g1, g2, g3, g4, g5])) None
               @ map Some (rev (hex_pairs (concat [g1, g2, g3, g4, g5]))) @ [])"
    by (rule copy_octets_hex) (use ev s in simp_all)
  then have co: "copy_octets [g1, g2, g3, g4, g5] 15 (replicate 16 None)
      = Inr (- 1, map Some (rev (hex_pairs ?g)))"
    unfolding s by simp
  have dev: "ipmi_app_get_device_guid ?u = Response (map Some (rev (hex_pairs ?g)))"
    unfolding ipmi_app_get_device_guid_def tk(1) list.case co by simp
  have idx: "\<forall>k<16. map Some (rev (hex_pairs ?g)) ! (15 - k)
             = Some (word_of_nat (16 * the (digit_val (?g ! (2 * k))) + the (digit_val (?g ! (2 * k + 1)))))"
  proof (intro allI impI)
    fix k :: nat
    assume k: "k < 16"
    have "rev (hex_pairs ?g) ! (15 - k) = hex_pairs ?g ! (length (hex_pairs ?g) - Suc (15 - k))"
      by (rule rev_nth) (simp add: lp)
    also have "length (hex_pairs ?g) - Suc (15 - k) = k" using k by (simp add: lp)
    also have "hex_pairs ?g ! k
        = word_of_nat (16 * the (digit_val (?g ! (2 * k))) + the (digit_val (?g ! (2 * k + 1))))"
      by (rule hex_pairs_nth) (use k lg in simp)
    finally show "map Some (rev (hex_pairs ?g)) ! (15 - k)
        = Some (word_of_nat (16 * the (digit_val (?g ! (2 * k))) + the (digit_val (?g ! (2 * k + 1)))))"
      by (simp add: lp)
  qed
  from sys dev lp idx show ?thesis by blast
qed

lemma guid_example_pairs:
  "hex_pairs ''61a3952378f211e59862e6402cfc3223''
     = [0x61, 0xa3, 0x95, 0x23, 0x78, 0xf2, 0x11, 0xe5, 0x98, 0x62, 0xe6, 0x40, 0x2c, 0xfc, 0x32, 0x23]"
  by (simp add: digit_val_def)

lemma guid_example_hex:
  "\<forall>c \<in> set (''61a39523'' @ ''78f2'' @ ''11e5'' @ ''9862'' @ ''e6402cfc3223''). is_digit 16 c"
  by (simp add: is_digit_def digit_val_def)

theorem guid_pairs_back_to_front_witness:
  "ipmi_app_get_sys_guid ''61a39523-78f2-11e5-9862-e6402cfc3223''
     = Response [Some 0x23, Some 0x32, Some 0xfc, Some 0x2c, Some 0x40, Some 0xe6, Some 0x62, Some 0x98,
                 Some 0xe5, Some 0x11, Some 0xf2, Some 0x78, Some 0x23, Some 0x95, Some 0xa3, Some 0x61]
   \<and> ipmi_app_get_device_guid ''61a39523-78f2-11e5-9862-e6402cfc3223''
     = Response [Some 0x23, Some 0x32, Some 0xfc, Some 0x2c, Some 0x40, Some 0xe6, Some 0x62, Some 0x98,
                 Some 0xe5, Some 0x11, Some 0xf2, Some 0x78, Some 0x23, Some 0x95, Some 0xa3, Some 0x61]
   \<and> [Some 0x23, Some 0x32, Some 0xfc, Some 0x2c, Some 0x40, Some 0xe6, Some 0x62, Some 0x98,
       Some 0xe5, Some 0x11, Some 0xf2, Some 0x78, Some 0x23, Some 0x95, Some 0xa3, Some (0x61 :: byte)] ! 0
     = Some 0x23
   \<and> [Some 0x23, Some 0x32, Some 0xfc, Some 0x2c, Some 0x40, Some 0xe6, Some 0x62, Some 0x98,
       Some 0xe5, Some 0x11, Some 0xf2, Some 0x78, Some 0x23, Some 0x95, Some 0xa3, Some (0x61 :: byte)] ! 15
     = Some 0x61"
  using guid_pairs_back_to_front
    [of "''61a39523''" "''78f2''" "''11e5''" "''9862''" "''e6402cfc3223''", OF _ _ _ _ _ guid_example_hex]
  by (simp add: digit_val_def)

subsection \<open>The output index of the copy loops\<close>




lemma sys_guid_33_chars_plain:
  "ipmi_app_get_sys_guid ''61a3952378f211e59862e6402cfc32230'' = OutOfBounds 4294967295"
  by (simp add: ipmi_app_get_sys_guid_def bmc_guid_len_def sys_guid_loop.simps stoi_eval size_t_wrap)





end
